theory Spec2Isabelle
  imports Main "HOL-Library.Sublist" "HOL-Library.Multiset"
begin

section \<open>Data model of \<^verbatim>\<open>newrelic_lambda_layers/awslambda.py\<close>\<close>

text \<open>
  The planners \<^verbatim>\<open>_add_new_relic\<close> and \<^verbatim>\<open>_remove_new_relic\<close> read the response of the
  provider's \<^verbatim>\<open>get_function\<close> call, a nest of dictionaries, with \<^verbatim>\<open>.get\<close> and a default
  at every level. Each dictionary is a record whose fields are options: \<open>None\<close> is a key
  that is absent. A value that is a \<^verbatim>\<open>str\<close> or \<^verbatim>\<open>None\<close> is a \<open>string option\<close>.
\<close>

type_synonym py_str = "string option"

text \<open>Python's truth value of a \<^verbatim>\<open>str\<close> or \<^verbatim>\<open>None\<close>: \<^verbatim>\<open>None\<close> and \<^verbatim>\<open>""\<close> are false.\<close>

definition truthy :: "py_str \<Rightarrow> bool" where
  "truthy v = (case v of None \<Rightarrow> False | Some s \<Rightarrow> s \<noteq> [])"

text \<open>
  An entry of \<^verbatim>\<open>"Layers"\<close>. \<^verbatim>\<open>_remove_new_relic\<close> reads it with \<^verbatim>\<open>layer_arn["Arn"]\<close>, which tells an
  absent key from a value that is \<^verbatim>\<open>None\<close>: \<open>None\<close> is the absent key, \<open>Some None\<close> the value
  \<^verbatim>\<open>None\<close> and \<open>Some (Some a)\<close> the string \<open>a\<close>.
\<close>

record layer =
  Arn :: "py_str option"

record environment =
  Variables :: "(string \<rightharpoonup> py_str) option"

record configuration =
  Runtime :: "string option"
  Handler :: py_str
  Layers :: "layer list option"
  Environment :: "environment option"

record config =
  Configuration :: "configuration option"

text \<open>An entry of the list that layer discovery (\<^verbatim>\<open>utils.get_layers\<close>) returns.\<close>

record layer_version =
  LayerVersionArn :: "string option"

record disco_layer =
  LatestMatchingVersion :: "layer_version option"
  Description :: "string option"

text \<open>
  The value under \<^verbatim>\<open>"Handler"\<close> in an entry of \<^verbatim>\<open>utils.RUNTIME_CONFIG\<close>: a string, or for
  the java runtimes a dictionary from the handler type to a string (an association list
  read with \<open>map_of\<close>).
\<close>

datatype handler_value = HandlerStr string | HandlerDict "(string \<times> string) list"

text \<open>
  The module \<^verbatim>\<open>utils\<close> is not part of the sources at hand. Its four members that the
  planners use are parameters of the model: the table \<^verbatim>\<open>RUNTIME_CONFIG\<close> (every entry
  carrying its \<^verbatim>\<open>"Handler"\<close>), \<^verbatim>\<open>get_arn_prefix(region)\<close>, the discovery call
  \<^verbatim>\<open>get_layers(region, runtime)\<close> and \<^verbatim>\<open>is_valid_handler(runtime, handler)\<close>.
\<close>

record utils =
  RUNTIME_CONFIG :: "string \<rightharpoonup> handler_value"
  get_arn_prefix :: "string \<Rightarrow> string"
  get_layers :: "string \<Rightarrow> string \<Rightarrow> disco_layer list"
  is_valid_handler :: "string \<Rightarrow> string \<Rightarrow> bool"

text \<open>
  The messages of \<^verbatim>\<open>UpdateLambdaException\<close>, in the order of the source:
  "Account ID missing from parameters.", "Must specify a handler type for java functions.",
  "Already installed. Pass --upgrade ...", "Unsupported Lambda runtime: %s",
  "... Error: Unrecognized handler in deployed function." and
  "... Error: Environment variable NEW_RELIC_LAMBDA_HANDLER or NEW_RELIC_GENERIC_HANDLER
  not found.".
\<close>

datatype message =
    AccountIdMissing
  | JavaHandlerTypeMissing
  | AlreadyInstalled
  | UnsupportedRuntime string
  | UnrecognizedHandler
  | MarkerVariableNotFound

text \<open>
  The two exception classes of the module, and the built-in exceptions that the planners
  can raise and do not catch. \<open>MultipleLayersException\<close> carries the lines that the
  source prints before it raises: the version ARN and the description of every
  discovered layer.
\<close>

datatype error =
    UpdateLambdaException message
  | MultipleLayersException "(string \<times> string) list"
  | IndexError
  | KeyError
  | AttributeError

text \<open>The errors of the specification's taxonomy are the two classes of the module.\<close>

fun taxonomy :: "error \<Rightarrow> bool" where
  "taxonomy (UpdateLambdaException m) = True"
| "taxonomy (MultipleLayersException ls) = True"
| "taxonomy IndexError = False"
| "taxonomy KeyError = False"
| "taxonomy AttributeError = False"

text \<open>\<^verbatim>\<open>update_kwargs\<close> as \<^verbatim>\<open>_add_new_relic\<close> builds it.\<close>

record update_kwargs =
  kw_FunctionName :: string
  kw_Handler :: "handler_value option"
  kw_Variables :: "string \<rightharpoonup> py_str"
  kw_Layers :: "string list"

text \<open>The dictionary that \<^verbatim>\<open>_remove_new_relic\<close> returns.\<close>

record remove_kwargs =
  rm_FunctionName :: string
  rm_Handler :: py_str
  rm_Environment :: environment
  rm_Layers :: "layer list"

section \<open>Reading the configuration\<close>

text \<open>\<^verbatim>\<open>info.get("Configuration", {}).get(key)\<close>\<close>

definition cfg_get :: "config \<Rightarrow> (configuration \<Rightarrow> 'a option) \<Rightarrow> 'a option" where
  "cfg_get info field = (case Configuration info of None \<Rightarrow> None | Some c \<Rightarrow> field c)"

text \<open>\<^verbatim>\<open>info.get("Configuration", {}).get("Runtime", "")\<close>\<close>

definition runtime_of :: "config \<Rightarrow> string" where
  "runtime_of info = (case cfg_get info Runtime of None \<Rightarrow> [] | Some r \<Rightarrow> r)"

text \<open>\<^verbatim>\<open>info.get("Configuration", {}).get("Layers", [])\<close>\<close>

definition configured_layers :: "config \<Rightarrow> layer list" where
  "configured_layers info = (case cfg_get info Layers of None \<Rightarrow> [] | Some ls \<Rightarrow> ls)"

text \<open>
  \<^verbatim>\<open>info.get("Configuration", {}).get("Environment", {}).get("Variables")\<close>; \<open>None\<close> when a
  key on the way is absent.
\<close>

definition variables_of :: "config \<Rightarrow> (string \<rightharpoonup> py_str) option" where
  "variables_of info = (case cfg_get info Environment of None \<Rightarrow> None | Some e \<Rightarrow> Variables e)"

text \<open>\<^verbatim>\<open>... .get("Variables", {}).get(key)\<close>: \<^verbatim>\<open>None\<close> for an absent key.\<close>

definition var_get :: "config \<Rightarrow> string \<Rightarrow> py_str" where
  "var_get info key = (case variables_of info of None \<Rightarrow> None
     | Some vs \<Rightarrow> (case vs key of None \<Rightarrow> None | Some v \<Rightarrow> v))"

text \<open>
  \<^verbatim>\<open>info = config.copy()\<close> is a shallow copy: the nested dictionaries and the layer list
  are the caller's own objects. Writing to the \<^verbatim>\<open>"Variables"\<close> dictionary is therefore a
  write to the caller's configuration, when that dictionary exists; the planners
  return, next to their result, the caller's configuration as the call leaves it.
\<close>

definition set_variables :: "config \<Rightarrow> (string \<rightharpoonup> py_str) \<Rightarrow> config" where
  "set_variables info vs = (case Configuration info of None \<Rightarrow> info
     | Some c \<Rightarrow> (case Environment c of None \<Rightarrow> info
       | Some e \<Rightarrow> (case Variables e of None \<Rightarrow> info
         | Some old \<Rightarrow> info\<lparr>Configuration := Some (c\<lparr>Environment := Some (e\<lparr>Variables := Some vs\<rparr>)\<rparr>)\<rparr>)))"

definition set_layers :: "config \<Rightarrow> layer list \<Rightarrow> config" where
  "set_layers info ls = (case Configuration info of None \<Rightarrow> info
     | Some c \<Rightarrow> (case Layers c of None \<Rightarrow> info
       | Some old \<Rightarrow> info\<lparr>Configuration := Some (c\<lparr>Layers := Some ls\<rparr>)\<rparr>))"

section \<open>\<^verbatim>\<open>_add_new_relic\<close>\<close>

text \<open>
  Lines 45 to 53: for a runtime whose name starts with "java" the handler type is
  mandatory and selects the handler in the dictionary of the entry. \<^verbatim>\<open>.get(java_type)\<close> on
  an entry that is a string raises \<^verbatim>\<open>AttributeError\<close>.
\<close>

definition java_runtime_handler ::
    "utils \<Rightarrow> string \<Rightarrow> py_str \<Rightarrow> handler_value option \<Rightarrow> error + handler_value option" where
  "java_runtime_handler u runtime java_type runtime_handler =
     (if prefix ''java'' runtime then
        (case java_type of
           None \<Rightarrow> Inl (UpdateLambdaException JavaHandlerTypeMissing)
         | Some t \<Rightarrow>
            if t = [] then Inl (UpdateLambdaException JavaHandlerTypeMissing)
            else (case RUNTIME_CONFIG u runtime of
                    None \<Rightarrow> Inr None
                  | Some (HandlerDict d) \<Rightarrow> Inr (map_option HandlerStr (map_of d t))
                  | Some (HandlerStr s) \<Rightarrow> Inl AttributeError))
      else Inr runtime_handler)"

text \<open>Lines 65 to 68.\<close>

definition filter_new_relic_layers :: "utils \<Rightarrow> string \<Rightarrow> string \<Rightarrow> bool" where
  "filter_new_relic_layers u region layer_arn =
     (if prefix (get_arn_prefix u region) layer_arn then False else True)"

text \<open>
  Lines 70 to 78: \<^verbatim>\<open>_map_response_to_arns\<close> is \<^verbatim>\<open>layer.get("Arn")\<close>, which is \<^verbatim>\<open>None\<close> for an
  absent key as for the value \<^verbatim>\<open>None\<close>; on \<^verbatim>\<open>None\<close> the \<^verbatim>\<open>startswith\<close> of the filter raises
  \<^verbatim>\<open>AttributeError\<close>. The result is the list of the ARNs that the filter keeps.
\<close>

definition map_response_to_arns :: "layer \<Rightarrow> py_str" where
  "map_response_to_arns layer = (case Arn layer of None \<Rightarrow> None | Some v \<Rightarrow> v)"

fun existing_layers_of :: "utils \<Rightarrow> string \<Rightarrow> layer list \<Rightarrow> error + string list" where
  "existing_layers_of u region [] = Inr []"
| "existing_layers_of u region (l # ls) =
     (case map_response_to_arns l of
        None \<Rightarrow> Inl AttributeError
      | Some a \<Rightarrow>
         (case existing_layers_of u region ls of
            Inl e \<Rightarrow> Inl e
          | Inr r \<Rightarrow> Inr (if filter_new_relic_layers u region a then a # r else r)))"

text \<open>
  \<^verbatim>\<open>layer.get("LatestMatchingVersion", {}).get("LayerVersionArn", "")\<close> and
  \<^verbatim>\<open>layer.get("Description", "")\<close>
\<close>

definition version_arn :: "disco_layer \<Rightarrow> string" where
  "version_arn l = (case LatestMatchingVersion l of None \<Rightarrow> []
     | Some v \<Rightarrow> (case LayerVersionArn v of None \<Rightarrow> [] | Some a \<Rightarrow> a))"

definition description_of :: "disco_layer \<Rightarrow> string" where
  "description_of l = (case Description l of None \<Rightarrow> [] | Some d \<Rightarrow> d)"

text \<open>
  Lines 80 to 101. The test before the listing of the candidates reads the length of
  \<^verbatim>\<open>new_relic_layers\<close>, the list that line 80 has just set to \<^verbatim>\<open>[]\<close>, as the source does.
\<close>

definition discover_layers :: "utils \<Rightarrow> string \<Rightarrow> string \<Rightarrow> py_str \<Rightarrow> error + string list" where
  "discover_layers u region runtime layer_arn =
     (let new_relic_layers = ([] :: string list) in
      if truthy layer_arn then Inr (case layer_arn of None \<Rightarrow> [] | Some a \<Rightarrow> [a])
      else
        (let disco_layers = get_layers u region runtime in
         if 1 < length new_relic_layers then
           Inl (MultipleLayersException
                  (map (\<lambda>l. (version_arn l, description_of l)) disco_layers))
         else (case disco_layers of
                 [] \<Rightarrow> Inl IndexError
               | l # rest \<Rightarrow> Inr [version_arn l])))"

text \<open>
  The planner. The result is paired with the caller's configuration after the call.
\<close>

definition add_new_relic ::
    "utils \<Rightarrow> config \<Rightarrow> string \<Rightarrow> string \<Rightarrow> py_str \<Rightarrow> py_str \<Rightarrow> py_str \<Rightarrow> bool
       \<Rightarrow> (error + update_kwargs) \<times> config" where
  "add_new_relic u config region function_arn layer_arn account_id java_type allow_upgrade =
     (let info = config;
          runtime = runtime_of info;
          orig_handler = cfg_get info Handler;
          runtime_handler = RUNTIME_CONFIG u runtime
      in
      if \<not> truthy account_id then (Inl (UpdateLambdaException AccountIdMissing), config)
      else (case java_runtime_handler u runtime java_type runtime_handler of
        Inl e \<Rightarrow> (Inl e, config)
      | Inr runtime_handler \<Rightarrow>
        if \<not> allow_upgrade \<and> map_option HandlerStr orig_handler = runtime_handler
        then (Inl (UpdateLambdaException AlreadyInstalled), config)
        else if runtime = ''provider'' \<or> RUNTIME_CONFIG u runtime = None
        then (Inl (UpdateLambdaException (UnsupportedRuntime runtime)), config)
        else (case existing_layers_of u region (configured_layers info) of
          Inl e \<Rightarrow> (Inl e, config)
        | Inr existing_layers \<Rightarrow>
          (case discover_layers u region runtime layer_arn of
            Inl e \<Rightarrow> (Inl e, config)
          | Inr new_relic_layers \<Rightarrow>
            (let vars0 = (case variables_of info of None \<Rightarrow> Map.empty | Some vs \<Rightarrow> vs);
                 vars1 = vars0(''NEW_RELIC_ACCOUNT_ID'' \<mapsto> account_id);
                 vars2 =
                   (if map_option HandlerStr orig_handler \<noteq> runtime_handler then
                      (if prefix ''java'' runtime
                       then vars1(''NEW_RELIC_GENERIC_HANDLER'' \<mapsto> orig_handler)
                       else vars1(''NEW_RELIC_LAMBDA_HANDLER'' \<mapsto> orig_handler))
                    else vars1)
             in (Inr \<lparr>kw_FunctionName = function_arn,
                      kw_Handler = runtime_handler,
                      kw_Variables = vars2,
                      kw_Layers = new_relic_layers @ existing_layers\<rparr>,
                 set_variables config vars2))))))"

section \<open>\<^verbatim>\<open>_remove_new_relic\<close>\<close>

text \<open>
  Lines 179 to 187: \<^verbatim>\<open>del info["Configuration"]["Environment"]["Variables"][key]\<close> with the
  \<^verbatim>\<open>KeyError\<close> of an absent key, at any level, caught and ignored.
\<close>

definition del_variable :: "config \<Rightarrow> string \<Rightarrow> config" where
  "del_variable info key = (case variables_of info of None \<Rightarrow> info
     | Some vs \<Rightarrow> set_variables info (vs(key := None)))"

text \<open>
  Lines 191 to 193: the list iterator holds an index; each round reads
  \<^verbatim>\<open>layers[layer_idx]\<close> if the index is still inside the list, deletes that entry in place
  when its ARN has the prefix, and moves on to the next index. \<^verbatim>\<open>layer_arn["Arn"]\<close> on a
  layer without the key raises \<^verbatim>\<open>KeyError\<close>, and \<^verbatim>\<open>startswith\<close> on the value \<^verbatim>\<open>None\<close> raises
  \<^verbatim>\<open>AttributeError\<close>. The result is the exception, if any, and the list as the loop
  leaves it.
\<close>

function remove_layers_loop :: "string \<Rightarrow> nat \<Rightarrow> layer list \<Rightarrow> error option \<times> layer list" where
  "remove_layers_loop pre layer_idx layers =
     (if layer_idx < length layers then
        (case Arn (layers ! layer_idx) of
           None \<Rightarrow> (Some KeyError, layers)
         | Some None \<Rightarrow> (Some AttributeError, layers)
         | Some (Some a) \<Rightarrow>
            if prefix pre a
            then remove_layers_loop pre (Suc layer_idx)
                   (take layer_idx layers @ drop (Suc layer_idx) layers)
            else remove_layers_loop pre (Suc layer_idx) layers)
      else (None, layers))"
  by pat_completeness auto
termination
  by (relation "measure (\<lambda>(pre, layer_idx, layers). length layers - layer_idx)") auto

declare remove_layers_loop.simps [simp del]

definition remove_new_relic ::
    "utils \<Rightarrow> config \<Rightarrow> string \<Rightarrow> string \<Rightarrow> py_str \<Rightarrow> (error + remove_kwargs) \<times> config" where
  "remove_new_relic u config region function_arn layer_arn =
     (let info = config;
          runtime = runtime_of info;
          orig_handler = (case cfg_get info Handler of None \<Rightarrow> [] | Some h \<Rightarrow> h)
      in
      if runtime = ''provider'' \<or> RUNTIME_CONFIG u runtime = None
      then (Inl (UpdateLambdaException (UnsupportedRuntime runtime)), config)
      else if \<not> is_valid_handler u runtime orig_handler
      then (Inl (UpdateLambdaException UnrecognizedHandler), config)
      else
        (let env_handler = var_get info ''NEW_RELIC_LAMBDA_HANDLER'';
             env_alt_handler = var_get info ''NEW_RELIC_GENERIC_HANDLER'';
             env_handler = (if truthy env_handler then env_handler else env_alt_handler)
         in
         if \<not> truthy env_handler
         then (Inl (UpdateLambdaException MarkerVariableNotFound), config)
         else
           (let info1 = foldl del_variable info
                          [''NEW_RELIC_LAMBDA_HANDLER'', ''NEW_RELIC_GENERIC_HANDLER'',
                           ''NEW_RELIC_ACCOUNT_ID''];
                layers = configured_layers info1;
                (raised, layers) = remove_layers_loop (get_arn_prefix u region) 0 layers;
                info2 = set_layers info1 layers
            in (case raised of
                  Some e \<Rightarrow> (Inl e, info2)
                | None \<Rightarrow>
                   (case cfg_get info2 Environment of
                      None \<Rightarrow> (Inl KeyError, info2)
                    | Some env \<Rightarrow>
                       (Inr \<lparr>rm_FunctionName = function_arn,
                             rm_Handler = env_handler,
                             rm_Environment = env,
                             rm_Layers = layers\<rparr>,
                        info2))))))"

section \<open>Derived notions\<close>

text \<open>
  The environment variables of \<^verbatim>\<open>update_kwargs\<close> when \<^verbatim>\<open>_add_new_relic\<close> returns (lines 107
  to 127), as a function of the configuration, the account id and the handler that
  lines 40 to 53 have computed.
\<close>

definition install_variables :: "config \<Rightarrow> py_str \<Rightarrow> handler_value option \<Rightarrow> string \<rightharpoonup> py_str" where
  "install_variables info account_id runtime_handler =
     (let vars0 = (case variables_of info of None \<Rightarrow> Map.empty | Some vs \<Rightarrow> vs);
          vars1 = vars0(''NEW_RELIC_ACCOUNT_ID'' \<mapsto> account_id)
      in if map_option HandlerStr (cfg_get info Handler) \<noteq> runtime_handler then
           (if prefix ''java'' (runtime_of info)
            then vars1(''NEW_RELIC_GENERIC_HANDLER'' \<mapsto> cfg_get info Handler)
            else vars1(''NEW_RELIC_LAMBDA_HANDLER'' \<mapsto> cfg_get info Handler))
         else vars1)"

text \<open>The value of \<^verbatim>\<open>env_handler\<close> after line 169 of \<^verbatim>\<open>_remove_new_relic\<close>.\<close>

definition chosen_marker :: "config \<Rightarrow> py_str" where
  "chosen_marker info =
     (if truthy (var_get info ''NEW_RELIC_LAMBDA_HANDLER'')
      then var_get info ''NEW_RELIC_LAMBDA_HANDLER''
      else var_get info ''NEW_RELIC_GENERIC_HANDLER'')"

text \<open>The ARNs of a list of configured layers, in order; a layer without ARN has none.\<close>

definition layer_arns :: "layer list \<Rightarrow> string list" where
  "layer_arns ls =
     concat (map (\<lambda>l. case map_response_to_arns l of None \<Rightarrow> [] | Some a \<Rightarrow> [a]) ls)"

text \<open>
  Modelled from the spec: \<^verbatim>\<open>utils.is_valid_handler\<close>, which is not among the sources. Section
  4.4, step 2: the handler must equal the instrumentation handler derived from the
  runtime alone; for a runtime with several handler types, the handler of any type
  counts.
\<close>

definition is_valid_handler_spec ::
    "(string \<rightharpoonup> handler_value) \<Rightarrow> string \<Rightarrow> string \<Rightarrow> bool" where
  "is_valid_handler_spec table runtime handler =
     (case table runtime of
        None \<Rightarrow> False
      | Some (HandlerStr s) \<Rightarrow> handler = s
      | Some (HandlerDict d) \<Rightarrow> Some handler \<in> set (map (map_of d) (map fst d)))"

text \<open>
  What the provider's \<^verbatim>\<open>update_function_configuration(**update_kwargs)\<close> does to the stored
  configuration, as far as the planners read it: handler, environment and layers are
  replaced by those of the patch, the runtime stays. A handler that is not a string is
  not stored.
\<close>

definition apply_patch :: "config \<Rightarrow> update_kwargs \<Rightarrow> config" where
  "apply_patch info p = (case Configuration info of None \<Rightarrow> info
     | Some c \<Rightarrow> info\<lparr>Configuration := Some (c
         \<lparr>Handler := (case kw_Handler p of Some (HandlerStr h) \<Rightarrow> Some h | _ \<Rightarrow> None),
          Layers := Some (map (\<lambda>a. \<lparr>Arn = Some (Some a)\<rparr>) (kw_Layers p)),
          Environment := Some \<lparr>Variables = Some (kw_Variables p)\<rparr>\<rparr>)\<rparr>)"

text \<open>
  \<^verbatim>\<open>install\<close> followed by \<^verbatim>\<open>uninstall\<close> on the same function: the second planner runs on
  the configuration that the provider holds after the first patch.
\<close>

definition install_then_uninstall ::
    "utils \<Rightarrow> config \<Rightarrow> string \<Rightarrow> string \<Rightarrow> py_str \<Rightarrow> py_str \<Rightarrow> py_str \<Rightarrow> bool
       \<Rightarrow> error + remove_kwargs" where
  "install_then_uninstall u config region function_arn layer_arn account_id java_type
       allow_upgrade =
     (case fst (add_new_relic u config region function_arn layer_arn account_id java_type
                  allow_upgrade) of
        Inl e \<Rightarrow> Inl e
      | Inr p \<Rightarrow> fst (remove_new_relic u (apply_patch config p) region function_arn None))"

text \<open>
  The result of an uninstall restores a configuration: it is a patch with the handler
  of that configuration and with its layers, up to their order.
\<close>

definition restores :: "config \<Rightarrow> error + remove_kwargs \<Rightarrow> bool" where
  "restores info r = (case r of
       Inl e \<Rightarrow> False
     | Inr q \<Rightarrow> rm_Handler q = cfg_get info Handler
          \<and> mset (map Arn (rm_Layers q)) = mset (map Arn (configured_layers info)))"

section \<open>Example inputs\<close>

text \<open>A table with one runtime of each kind, and the vendor's prefix of a region.\<close>

definition example_runtime_config :: "string \<rightharpoonup> handler_value" where
  "example_runtime_config =
     [''python3.9'' \<mapsto> HandlerStr ''newrelic_lambda_wrapper.handler'',
      ''java11'' \<mapsto> HandlerDict
         [(''handleRequest'', ''com.newrelic.java.HandlerWrapper::handleRequest''),
          (''handleStreamsRequest'',
           ''com.newrelic.java.HandlerWrapper::handleStreamsRequest'')]]"

definition example_utils :: "disco_layer list \<Rightarrow> utils" where
  "example_utils found =
     \<lparr>RUNTIME_CONFIG = example_runtime_config,
      get_arn_prefix = (\<lambda>region. ''arn:aws:lambda:'' @ region @ '':451483290750''),
      get_layers = (\<lambda>region runtime. found),
      is_valid_handler = is_valid_handler_spec example_runtime_config\<rparr>"

definition example_layer :: "string \<Rightarrow> string \<Rightarrow> disco_layer" where
  "example_layer a d =
     \<lparr>LatestMatchingVersion = Some \<lparr>LayerVersionArn = Some a\<rparr>, Description = Some d\<rparr>"

definition example_config ::
    "string \<Rightarrow> string \<Rightarrow> string list \<Rightarrow> (string \<times> string) list \<Rightarrow> config" where
  "example_config runtime handler arns vars =
     \<lparr>Configuration = Some
        \<lparr>Runtime = Some runtime, Handler = Some handler,
         Layers = Some (map (\<lambda>a. \<lparr>Arn = Some (Some a)\<rparr>) arns),
         Environment =
           Some \<lparr>Variables = Some (map_of (map (\<lambda>(k, v). (k, Some v)) vars))\<rparr>\<rparr>\<rparr>"

lemmas example_defs =
  example_runtime_config_def example_utils_def example_layer_def example_config_def

section \<open>The steps of \<^verbatim>\<open>_add_new_relic\<close>\<close>

lemma map_response_to_arns_Some:
  "(map_response_to_arns l = Some a) = (Arn l = Some (Some a))"
  by (auto simp: map_response_to_arns_def split: option.splits)

lemma existing_layers_of_Inr:
  "existing_layers_of u region ls = Inr ex \<Longrightarrow>
     (\<forall>l \<in> set ls. map_response_to_arns l \<noteq> None) \<and>
     ex = filter (\<lambda>a. \<not> prefix (get_arn_prefix u region) a) (layer_arns ls)"
  by (induction ls arbitrary: ex)
     (auto simp: layer_arns_def filter_new_relic_layers_def split: option.splits sum.splits)

lemma existing_layers_of_total:
  "\<forall>l \<in> set ls. map_response_to_arns l \<noteq> None \<Longrightarrow>
     existing_layers_of u region ls
       = Inr (filter (\<lambda>a. \<not> prefix (get_arn_prefix u region) a) (layer_arns ls))"
  by (induction ls) (auto simp: layer_arns_def filter_new_relic_layers_def)

lemma discover_layers_explicit:
  "a \<noteq> [] \<Longrightarrow> discover_layers u region runtime (Some a) = Inr [a]"
  by (simp add: discover_layers_def truthy_def)

lemma discover_layers_first:
  "\<not> truthy la \<Longrightarrow> get_layers u region runtime = d # ds \<Longrightarrow>
     discover_layers u region runtime la = Inr [version_arn d]"
  by (simp add: discover_layers_def)

lemma discover_layers_empty:
  "\<not> truthy la \<Longrightarrow> get_layers u region runtime = [] \<Longrightarrow>
     discover_layers u region runtime la = Inl IndexError"
  by (simp add: discover_layers_def)

lemma discover_layers_Inr:
  "discover_layers u region runtime la = Inr new \<Longrightarrow>
     (\<exists>a. new = [a] \<and>
        (la = Some a \<and> a \<noteq> [] \<or>
         \<not> truthy la \<and> (\<exists>d ds. get_layers u region runtime = d # ds \<and> a = version_arn d)))"
  by (auto simp: discover_layers_def truthy_def split: if_splits option.splits list.splits)

lemma discover_layers_not_multiple:
  "discover_layers u region runtime la \<noteq> Inl (MultipleLayersException xs)"
  by (auto simp: discover_layers_def split: option.splits list.splits)

lemma java_runtime_handler_not_multiple:
  "java_runtime_handler u runtime jt rh \<noteq> Inl (MultipleLayersException xs)"
  by (auto simp: java_runtime_handler_def split: option.splits handler_value.splits)

lemma existing_layers_of_not_multiple:
  "existing_layers_of u region ls \<noteq> Inl (MultipleLayersException xs)"
  by (induction ls) (auto split: option.splits sum.splits)

lemma java_runtime_handler_supported:
  "java_runtime_handler u runtime jt (RUNTIME_CONFIG u runtime) = Inr (Some v) \<Longrightarrow>
     RUNTIME_CONFIG u runtime \<noteq> None"
  by (auto simp: java_runtime_handler_def split: if_splits option.splits)

lemma add_new_relic_success:
  assumes "truthy account_id"
    and "java_runtime_handler u (runtime_of config) java_type
           (RUNTIME_CONFIG u (runtime_of config)) = Inr runtime_handler"
    and "allow_upgrade \<or> map_option HandlerStr (cfg_get config Handler) \<noteq> runtime_handler"
    and "runtime_of config \<noteq> ''provider''"
    and "RUNTIME_CONFIG u (runtime_of config) \<noteq> None"
    and "existing_layers_of u region (configured_layers config) = Inr existing_layers"
    and "discover_layers u region (runtime_of config) layer_arn = Inr new_relic_layers"
  shows "add_new_relic u config region function_arn layer_arn account_id java_type allow_upgrade
           = (Inr \<lparr>kw_FunctionName = function_arn, kw_Handler = runtime_handler,
                    kw_Variables = install_variables config account_id runtime_handler,
                    kw_Layers = new_relic_layers @ existing_layers\<rparr>,
              set_variables config (install_variables config account_id runtime_handler))"
  using assms by (auto simp: add_new_relic_def Let_def install_variables_def)

lemma add_new_relic_Inr:
  assumes "fst (add_new_relic u config region function_arn layer_arn account_id java_type
                  allow_upgrade) = Inr p"
  shows "truthy account_id"
    and "java_runtime_handler u (runtime_of config) java_type
              (RUNTIME_CONFIG u (runtime_of config)) = Inr (kw_Handler p)"
    and "allow_upgrade \<or> map_option HandlerStr (cfg_get config Handler) \<noteq> kw_Handler p"
    and "runtime_of config \<noteq> ''provider''"
    and "RUNTIME_CONFIG u (runtime_of config) \<noteq> None"
    and "\<exists>existing_layers new_relic_layers.
           existing_layers_of u region (configured_layers config) = Inr existing_layers
         \<and> discover_layers u region (runtime_of config) layer_arn = Inr new_relic_layers
         \<and> kw_Layers p = new_relic_layers @ existing_layers"
    and "kw_Variables p = install_variables config account_id (kw_Handler p)"
    and "kw_FunctionName p = function_arn"
  using assms
  by (auto simp: add_new_relic_def Let_def install_variables_def split: if_splits sum.splits)

lemma add_new_relic_Inl:
  "fst (add_new_relic u config region function_arn layer_arn account_id java_type
          allow_upgrade) = Inl e \<Longrightarrow>
   snd (add_new_relic u config region function_arn layer_arn account_id java_type
          allow_upgrade) = config"
  by (auto simp: add_new_relic_def Let_def split: if_splits sum.splits)

lemma add_new_relic_not_multiple:
  "fst (add_new_relic u config region function_arn layer_arn account_id java_type
          allow_upgrade) \<noteq> Inl (MultipleLayersException xs)"
  using discover_layers_not_multiple [of u region "runtime_of config" layer_arn xs]
        java_runtime_handler_not_multiple
          [of u "runtime_of config" java_type "RUNTIME_CONFIG u (runtime_of config)" xs]
        existing_layers_of_not_multiple [of u region "configured_layers config" xs]
  by (auto simp: add_new_relic_def Let_def split: if_splits sum.splits)

section \<open>The steps of \<^verbatim>\<open>_remove_new_relic\<close>\<close>

lemma remove_new_relic_unsupported:
  assumes "runtime_of config = ''provider'' \<or> RUNTIME_CONFIG u (runtime_of config) = None"
  shows "remove_new_relic u config region function_arn layer_arn
           = (Inl (UpdateLambdaException (UnsupportedRuntime (runtime_of config))), config)"
  using assms by (simp add: remove_new_relic_def Let_def)

lemma remove_new_relic_unrecognized:
  assumes "runtime_of config \<noteq> ''provider''" and "RUNTIME_CONFIG u (runtime_of config) \<noteq> None"
    and "\<not> is_valid_handler u (runtime_of config)
             (case cfg_get config Handler of None \<Rightarrow> [] | Some h \<Rightarrow> h)"
  shows "remove_new_relic u config region function_arn layer_arn
           = (Inl (UpdateLambdaException UnrecognizedHandler), config)"
  using assms by (auto simp: remove_new_relic_def Let_def)

lemma remove_new_relic_no_marker:
  assumes "runtime_of config \<noteq> ''provider''" and "RUNTIME_CONFIG u (runtime_of config) \<noteq> None"
    and "is_valid_handler u (runtime_of config)
           (case cfg_get config Handler of None \<Rightarrow> [] | Some h \<Rightarrow> h)"
    and "\<not> truthy (chosen_marker config)"
  shows "remove_new_relic u config region function_arn layer_arn
           = (Inl (UpdateLambdaException MarkerVariableNotFound), config)"
  using assms by (auto simp: remove_new_relic_def Let_def chosen_marker_def)

lemma remove_new_relic_detected:
  assumes "runtime_of config \<noteq> ''provider''" and "RUNTIME_CONFIG u (runtime_of config) \<noteq> None"
    and "is_valid_handler u (runtime_of config)
           (case cfg_get config Handler of None \<Rightarrow> [] | Some h \<Rightarrow> h)"
    and "truthy (chosen_marker config)"
    and "foldl del_variable config
           [''NEW_RELIC_LAMBDA_HANDLER'', ''NEW_RELIC_GENERIC_HANDLER'',
            ''NEW_RELIC_ACCOUNT_ID''] = info1"
    and "remove_layers_loop (get_arn_prefix u region) 0 (configured_layers info1)
           = (raised, layers)"
  shows "remove_new_relic u config region function_arn layer_arn =
           (case raised of
              Some e \<Rightarrow> (Inl e, set_layers info1 layers)
            | None \<Rightarrow>
               (case cfg_get (set_layers info1 layers) Environment of
                  None \<Rightarrow> (Inl KeyError, set_layers info1 layers)
                | Some env \<Rightarrow>
                   (Inr \<lparr>rm_FunctionName = function_arn, rm_Handler = chosen_marker config,
                         rm_Environment = env, rm_Layers = layers\<rparr>,
                    set_layers info1 layers)))"
  using assms
  by (auto simp: remove_new_relic_def Let_def chosen_marker_def split: option.split)

lemma remove_layers_loop_raises:
  "remove_layers_loop pre i ls = (Some e, r) \<Longrightarrow> e = KeyError \<or> e = AttributeError"
  by (induction pre i ls rule: remove_layers_loop.induct)
     (subst (asm) remove_layers_loop.simps, auto split: if_splits option.splits)

text \<open>
  The four ways through \<^verbatim>\<open>_remove_new_relic\<close>: the three errors it raises itself, and the
  run of the two loops.
\<close>

lemma remove_new_relic_cases:
  obtains (unsupported) "runtime_of config = ''provider'' \<or> RUNTIME_CONFIG u (runtime_of config) = None"
  | (unrecognized) "runtime_of config \<noteq> ''provider''" "RUNTIME_CONFIG u (runtime_of config) \<noteq> None"
      "\<not> is_valid_handler u (runtime_of config)
             (case cfg_get config Handler of None \<Rightarrow> [] | Some h \<Rightarrow> h)"
  | (no_marker) "runtime_of config \<noteq> ''provider''" "RUNTIME_CONFIG u (runtime_of config) \<noteq> None"
      "is_valid_handler u (runtime_of config)
             (case cfg_get config Handler of None \<Rightarrow> [] | Some h \<Rightarrow> h)"
      "\<not> truthy (chosen_marker config)"
  | (detected) raised layers where
      "runtime_of config \<noteq> ''provider''" "RUNTIME_CONFIG u (runtime_of config) \<noteq> None"
      "is_valid_handler u (runtime_of config)
             (case cfg_get config Handler of None \<Rightarrow> [] | Some h \<Rightarrow> h)"
      "truthy (chosen_marker config)"
      "remove_layers_loop (get_arn_prefix u region) 0
         (configured_layers (foldl del_variable config
           [''NEW_RELIC_LAMBDA_HANDLER'', ''NEW_RELIC_GENERIC_HANDLER'',
            ''NEW_RELIC_ACCOUNT_ID''])) = (raised, layers)"
  by (cases "remove_layers_loop (get_arn_prefix u region) 0
         (configured_layers (foldl del_variable config
           [''NEW_RELIC_LAMBDA_HANDLER'', ''NEW_RELIC_GENERIC_HANDLER'',
            ''NEW_RELIC_ACCOUNT_ID'']))") blast

lemma remove_new_relic_Inl:
  assumes "fst (remove_new_relic u config region function_arn layer_arn) = Inl e"
    and "taxonomy e"
  shows "snd (remove_new_relic u config region function_arn layer_arn) = config"
proof (cases rule: remove_new_relic_cases [where config = config and u = u and region = region])
  case unsupported
  then show ?thesis by (simp add: remove_new_relic_unsupported)
next
  case unrecognized
  then show ?thesis by (simp add: remove_new_relic_unrecognized)
next
  case no_marker
  then show ?thesis by (simp add: remove_new_relic_no_marker)
next
  case (detected raised layers)
  note eq = remove_new_relic_detected [OF detected(1-4) refl detected(5), of function_arn layer_arn]
  show ?thesis
  proof (cases raised)
    case None
    with assms eq show ?thesis by (auto split: option.splits)
  next
    case (Some e')
    with detected(5) have "e' = KeyError \<or> e' = AttributeError"
      by (simp add: remove_layers_loop_raises)
    with Some assms eq show ?thesis by auto
  qed
qed

lemma remove_new_relic_Inr:
  assumes "fst (remove_new_relic u config region function_arn layer_arn) = Inr q"
  shows "runtime_of config \<noteq> ''provider''" and "RUNTIME_CONFIG u (runtime_of config) \<noteq> None"
    and "is_valid_handler u (runtime_of config)
           (case cfg_get config Handler of None \<Rightarrow> [] | Some h \<Rightarrow> h)"
    and "truthy (chosen_marker config)"
    and "rm_Handler q = chosen_marker config"
    and "remove_layers_loop (get_arn_prefix u region) 0
         (configured_layers (foldl del_variable config
           [''NEW_RELIC_LAMBDA_HANDLER'', ''NEW_RELIC_GENERIC_HANDLER'',
            ''NEW_RELIC_ACCOUNT_ID''])) = (None, rm_Layers q)"
proof -
  have "runtime_of config \<noteq> ''provider'' \<and> RUNTIME_CONFIG u (runtime_of config) \<noteq> None
    \<and> is_valid_handler u (runtime_of config)
           (case cfg_get config Handler of None \<Rightarrow> [] | Some h \<Rightarrow> h)
    \<and> truthy (chosen_marker config) \<and> rm_Handler q = chosen_marker config
    \<and> remove_layers_loop (get_arn_prefix u region) 0
         (configured_layers (foldl del_variable config
           [''NEW_RELIC_LAMBDA_HANDLER'', ''NEW_RELIC_GENERIC_HANDLER'',
            ''NEW_RELIC_ACCOUNT_ID''])) = (None, rm_Layers q)"
  proof (cases rule: remove_new_relic_cases [where config = config and u = u and region = region])
    case unsupported
    with assms show ?thesis by (simp add: remove_new_relic_unsupported)
  next
    case unrecognized
    with assms show ?thesis by (simp add: remove_new_relic_unrecognized)
  next
    case no_marker
    with assms show ?thesis by (simp add: remove_new_relic_no_marker)
  next
    case (detected raised layers)
    note eq = remove_new_relic_detected [OF detected(1-4) refl detected(5), of function_arn layer_arn]
    from assms eq detected show ?thesis by (auto split: option.splits)
  qed
  then show "runtime_of config \<noteq> ''provider''" and "RUNTIME_CONFIG u (runtime_of config) \<noteq> None"
    and "is_valid_handler u (runtime_of config)
           (case cfg_get config Handler of None \<Rightarrow> [] | Some h \<Rightarrow> h)"
    and "truthy (chosen_marker config)"
    and "rm_Handler q = chosen_marker config"
    and "remove_layers_loop (get_arn_prefix u region) 0
         (configured_layers (foldl del_variable config
           [''NEW_RELIC_LAMBDA_HANDLER'', ''NEW_RELIC_GENERIC_HANDLER'',
            ''NEW_RELIC_ACCOUNT_ID''])) = (None, rm_Layers q)"
    by blast+
qed

text \<open>
  Deleting variables touches neither the runtime nor the layers, and keeps the
  environment in place; replacing the layers keeps the environment.
\<close>

lemma configured_layers_del_variable [simp]:
  "configured_layers (del_variable info key) = configured_layers info"
  by (auto simp: del_variable_def set_variables_def configured_layers_def cfg_get_def
      variables_of_def split: option.splits)

lemma runtime_of_del_variable [simp]:
  "runtime_of (del_variable info key) = runtime_of info"
  by (auto simp: del_variable_def set_variables_def runtime_of_def cfg_get_def
      variables_of_def split: option.splits)

lemma environment_del_variable [simp]:
  "(cfg_get (del_variable info key) Environment = None) = (cfg_get info Environment = None)"
  by (auto simp: del_variable_def set_variables_def cfg_get_def
      variables_of_def split: option.splits)

lemma environment_set_layers [simp]:
  "cfg_get (set_layers info ls) Environment = cfg_get info Environment"
  by (auto simp: set_layers_def cfg_get_def split: option.splits)

subsection \<open>The loop that deletes while it iterates\<close>

text \<open>
  From an index on where every layer has an ARN without the prefix, the loop changes
  nothing.
\<close>

lemma remove_layers_loop_no_vendor:
  "(\<forall>j. i \<le> j \<and> j < length ls \<longrightarrow> (\<exists>a. map_response_to_arns (ls ! j) = Some a \<and> \<not> prefix pre a)) \<Longrightarrow>
     remove_layers_loop pre i ls = (None, ls)"
proof (induction pre i ls rule: remove_layers_loop.induct)
  case (1 pre i ls)
  show ?case
  proof (cases "i < length ls")
    case False
    then show ?thesis by (subst remove_layers_loop.simps) simp
  next
    case True
    with "1.prems" obtain a where a: "map_response_to_arns (ls ! i) = Some a" "\<not> prefix pre a"
      by (meson order_refl)
    from "1.prems" have "\<forall>j. Suc i \<le> j \<and> j < length ls \<longrightarrow>
        (\<exists>a. map_response_to_arns (ls ! j) = Some a \<and> \<not> prefix pre a)"
      by simp
    moreover from a(1) have a': "Arn (ls ! i) = Some (Some a)"
      by (simp add: map_response_to_arns_Some)
    ultimately have "remove_layers_loop pre (Suc i) ls = (None, ls)"
      using "1.IH"(2) [OF True a' refl a(2)] by simp
    with True a' a(2) show ?thesis by (subst remove_layers_loop.simps) simp
  qed
qed

text \<open>
  One layer with the prefix at the head of a list without any other: the loop deletes
  it and skips the layer that moves into its place, which is harmless here.
\<close>

lemma remove_layers_loop_first_vendor:
  assumes "map_response_to_arns x = Some a" and "prefix pre a"
    and "\<forall>l \<in> set xs. \<exists>a. map_response_to_arns l = Some a \<and> \<not> prefix pre a"
  shows "remove_layers_loop pre 0 (x # xs) = (None, xs)"
proof -
  from assms(3) have "remove_layers_loop pre (Suc 0) xs = (None, xs)"
    by (intro remove_layers_loop_no_vendor) simp
  with assms(1,2) show ?thesis
    by (subst remove_layers_loop.simps) (simp add: map_response_to_arns_Some)
qed

text \<open>
  Whatever the loop deletes has the prefix: the layers without it survive, in order.
\<close>

lemma filter_delete_at:
  assumes "i < length ls" and "\<not> P (ls ! i)"
  shows "filter P (take i ls @ drop (Suc i) ls) = filter P ls"
proof -
  from assms(1) have "ls = take i ls @ ls ! i # drop (Suc i) ls"
    by (simp add: id_take_nth_drop)
  then have "filter P ls = filter P (take i ls @ ls ! i # drop (Suc i) ls)" by simp
  with assms(2) show ?thesis by simp
qed

lemma remove_layers_loop_keeps_other_layers:
  "remove_layers_loop pre i ls = (raised, r) \<Longrightarrow>
     filter (\<lambda>l. case map_response_to_arns l of None \<Rightarrow> True | Some a \<Rightarrow> \<not> prefix pre a) r
       = filter (\<lambda>l. case map_response_to_arns l of None \<Rightarrow> True | Some a \<Rightarrow> \<not> prefix pre a) ls"
proof (induction pre i ls rule: remove_layers_loop.induct)
  case (1 pre i ls)
  let ?other = "\<lambda>l. case map_response_to_arns l of None \<Rightarrow> True | Some a \<Rightarrow> \<not> prefix pre a"
  show ?case
  proof (cases "i < length ls")
    case False
    with "1.prems" show ?thesis by (subst (asm) remove_layers_loop.simps) simp
  next
    case True
    show ?thesis
    proof (cases "Arn (ls ! i)")
      case None
      with True "1.prems" show ?thesis by (subst (asm) remove_layers_loop.simps) simp
    next
      case (Some v)
      show ?thesis
      proof (cases v)
        case None
        with True Some "1.prems" show ?thesis
          by (subst (asm) remove_layers_loop.simps) simp
      next
        case arn: (Some a)
        show ?thesis
        proof (cases "prefix pre a")
          case vendor: True
          with True Some arn "1.prems"
          have "remove_layers_loop pre (Suc i) (take i ls @ drop (Suc i) ls) = (raised, r)"
            by (subst (asm) remove_layers_loop.simps) simp
          from "1.IH"(1) [OF True Some arn vendor this]
          have "filter ?other r = filter ?other (take i ls @ drop (Suc i) ls)" .
          also from Some arn vendor have "\<not> ?other (ls ! i)"
            by (simp add: map_response_to_arns_def)
          with True have "filter ?other (take i ls @ drop (Suc i) ls) = filter ?other ls"
            by (rule filter_delete_at)
          finally show ?thesis .
        next
          case other: False
          with True Some arn "1.prems"
          have "remove_layers_loop pre (Suc i) ls = (raised, r)"
            by (subst (asm) remove_layers_loop.simps) simp
          from "1.IH"(2) [OF True Some arn other this] show ?thesis .
        qed
      qed
    qed
  qed
qed

lemma remove_new_relic_keeps_other_layers:
  assumes "fst (remove_new_relic u config region function_arn layer_arn) = Inr q"
  shows "filter (\<lambda>l. case map_response_to_arns l of None \<Rightarrow> True
                     | Some a \<Rightarrow> \<not> prefix (get_arn_prefix u region) a) (rm_Layers q)
       = filter (\<lambda>l. case map_response_to_arns l of None \<Rightarrow> True
                     | Some a \<Rightarrow> \<not> prefix (get_arn_prefix u region) a)
           (configured_layers config)"
  using remove_layers_loop_keeps_other_layers [OF remove_new_relic_Inr(6) [OF assms]]
  by simp

text \<open>
  On layers that all have an ARN the loop raises nothing, and uninstall returns a patch
  as soon as the handler is accepted and a marker variable holds a value: the layers
  play no part in the detection.
\<close>

lemma remove_layers_loop_total:
  "\<forall>l \<in> set ls. map_response_to_arns l \<noteq> None \<Longrightarrow>
     \<exists>r. remove_layers_loop pre i ls = (None, r)"
proof (induction pre i ls rule: remove_layers_loop.induct)
  case (1 pre i ls)
  show ?case
  proof (cases "i < length ls")
    case False
    then show ?thesis by (subst remove_layers_loop.simps) simp
  next
    case True
    then have "ls ! i \<in> set ls" by (rule nth_mem)
    with "1.prems" have "map_response_to_arns (ls ! i) \<noteq> None" by blast
    then obtain a where "map_response_to_arns (ls ! i) = Some a" by blast
    then have a: "Arn (ls ! i) = Some (Some a)" by (simp add: map_response_to_arns_Some)
    show ?thesis
    proof (cases "prefix pre a")
      case vendor: True
      have "set (take i ls @ drop (Suc i) ls) \<subseteq> set ls"
        using set_take_subset [of i ls] set_drop_subset [of "Suc i" ls] by auto
      with "1.prems"
      have "\<forall>l \<in> set (take i ls @ drop (Suc i) ls). map_response_to_arns l \<noteq> None"
        by blast
      from "1.IH"(1) [OF True a refl vendor this] True a vendor
      show ?thesis by (subst remove_layers_loop.simps) simp
    next
      case other: False
      from "1.IH"(2) [OF True a refl other "1.prems"] True a other
      show ?thesis by (subst remove_layers_loop.simps) simp
    qed
  qed
qed

lemma chosen_marker_environment:
  "truthy (chosen_marker config) \<Longrightarrow> cfg_get config Environment \<noteq> None"
  by (auto simp: chosen_marker_def var_get_def variables_of_def truthy_def
      split: if_splits option.splits)

lemma remove_new_relic_returns:
  assumes "runtime_of config \<noteq> ''provider''" and "RUNTIME_CONFIG u (runtime_of config) \<noteq> None"
    and "is_valid_handler u (runtime_of config)
           (case cfg_get config Handler of None \<Rightarrow> [] | Some h \<Rightarrow> h)"
    and "truthy (chosen_marker config)"
    and "\<forall>l \<in> set (configured_layers config). map_response_to_arns l \<noteq> None"
  shows "\<exists>q. fst (remove_new_relic u config region function_arn layer_arn) = Inr q"
proof -
  define info1 where "info1 = foldl del_variable config
           [''NEW_RELIC_LAMBDA_HANDLER'', ''NEW_RELIC_GENERIC_HANDLER'',
            ''NEW_RELIC_ACCOUNT_ID'']"
  have ls: "configured_layers info1 = configured_layers config"
    by (simp add: info1_def)
  from chosen_marker_environment [OF assms(4)]
  have env: "cfg_get info1 Environment \<noteq> None"
    by (simp add: info1_def)
  from remove_layers_loop_total [OF assms(5), of "get_arn_prefix u region" 0]
  obtain r where "remove_layers_loop (get_arn_prefix u region) 0 (configured_layers info1)
      = (None, r)"
    unfolding ls by blast
  from remove_new_relic_detected [OF assms(1-4) info1_def [symmetric] this,
      of function_arn layer_arn] env
  show ?thesis by auto
qed

subsection \<open>Facts for the round trip\<close>

lemma layer_arns_filter_non_vendor:
  assumes "\<forall>l \<in> set ls. \<exists>a. map_response_to_arns l = Some a \<and> \<not> prefix pre a"
  shows "filter (\<lambda>a. \<not> prefix pre a) (layer_arns ls) = layer_arns ls"
  using assms by (induction ls) (auto simp: layer_arns_def)

lemma layer_arns_map_Arn:
  assumes "\<forall>l \<in> set ls. \<exists>a. map_response_to_arns l = Some a \<and> \<not> prefix pre a"
  shows "map (\<lambda>a. Some (Some a)) (layer_arns ls) = map Arn ls"
  using assms
proof (induction ls)
  case Nil
  show ?case by (simp add: layer_arns_def)
next
  case (Cons l ls)
  from Cons.prems obtain a where a: "map_response_to_arns l = Some a" by auto
  then have "Arn l = Some (Some a)" by (simp add: map_response_to_arns_Some)
  moreover from Cons have "map (\<lambda>a. Some (Some a)) (layer_arns ls) = map Arn ls" by simp
  ultimately show ?case using a by (simp add: layer_arns_def)
qed

lemma layer_arns_all_non_vendor:
  assumes "\<forall>l \<in> set ls. \<exists>a. map_response_to_arns l = Some a \<and> \<not> prefix pre a"
  shows "\<forall>a \<in> set (layer_arns ls). \<not> prefix pre a"
  using assms by (induction ls) (auto simp: layer_arns_def)

lemmas layer_arns_non_vendor =
  layer_arns_filter_non_vendor layer_arns_map_Arn layer_arns_all_non_vendor

text \<open>
  The function of the specification accepts the handler that install sets.
\<close>

lemma is_valid_handler_spec_target:
  assumes "java_runtime_handler u runtime java_type (RUNTIME_CONFIG u runtime)
             = Inr (Some (HandlerStr h))"
  shows "is_valid_handler_spec (RUNTIME_CONFIG u) runtime h"
proof (cases "prefix ''java'' runtime")
  case False
  with assms show ?thesis by (simp add: java_runtime_handler_def is_valid_handler_spec_def)
next
  case True
  with assms obtain d t where d: "RUNTIME_CONFIG u runtime = Some (HandlerDict d)"
      and t: "map_of d t = Some h"
    by (auto simp: java_runtime_handler_def split: option.splits if_splits handler_value.splits)
  from t have "(t, h) \<in> set d" by (rule map_of_SomeD)
  then have "t \<in> fst ` set d" by force
  with t have "Some h \<in> set (map (map_of d) (map fst d))" by force
  with d show ?thesis by (simp add: is_valid_handler_spec_def)
qed

section \<open>Evaluation on the example inputs\<close>

lemmas add_eval =
  add_new_relic_def Let_def runtime_of_def configured_layers_def cfg_get_def truthy_def
  java_runtime_handler_def discover_layers_def version_arn_def variables_of_def
  set_variables_def filter_new_relic_layers_def map_response_to_arns_def example_defs

lemmas remove_eval =
  remove_new_relic_def Let_def runtime_of_def configured_layers_def cfg_get_def truthy_def
  is_valid_handler_spec_def var_get_def variables_of_def set_variables_def set_layers_def
  del_variable_def remove_layers_loop.simps map_response_to_arns_def example_defs

lemmas check_eval =
  runtime_of_def configured_layers_def cfg_get_def truthy_def java_runtime_handler_def
  variables_of_def var_get_def version_arn_def is_valid_handler_spec_def
  map_response_to_arns_def example_defs

lemmas roundtrip_eval =
  install_then_uninstall_def apply_patch_def restores_def add_eval
  remove_new_relic_def is_valid_handler_spec_def var_get_def set_layers_def
  del_variable_def remove_layers_loop.simps

section \<open>The claims\<close>

subsection \<open>C1: more than one discovered layer\<close>

text \<open>
  Claim C1, evaluated where it fails. Discovery returns two candidate layers and no
  layer ARN is given: \<^verbatim>\<open>_add_new_relic\<close> does not raise \<^verbatim>\<open>MultipleLayersException\<close> but returns
  a patch whose layer list is the first candidate. The test at line 86 reads the empty
  \<^verbatim>\<open>new_relic_layers\<close>, not \<^verbatim>\<open>disco_layers\<close>.
\<close>

theorem add_new_relic_two_candidates:
  "map_sum id kw_Layers
     (fst (add_new_relic
        (example_utils
           [example_layer ''arn:aws:lambda:us-east-1:451483290750:layer:NewRelicPython39:7''
              ''New Relic Layer for Python 3.9'',
            example_layer ''arn:aws:lambda:us-east-1:451483290750:layer:NewRelicPython39ARM64:3''
              ''New Relic Layer for Python 3.9 (arm64)''])
        (example_config ''python3.9'' ''app.handler'' [] [])
        ''us-east-1'' ''my-function'' None (Some ''123'') None False))
   = Inr [''arn:aws:lambda:us-east-1:451483290750:layer:NewRelicPython39:7'']"
  by (simp add: add_eval)

subsection \<open>C2: the layers that uninstall returns\<close>

text \<open>
  Claim C2, evaluated where it fails. The configuration has two vendor layers at adjacent
  positions, followed by a layer of the user: the layer list that \<^verbatim>\<open>_remove_new_relic\<close>
  returns still holds the second vendor layer, which the loop skips after it has
  deleted the first.
\<close>

theorem remove_new_relic_adjacent_vendor_layers:
  "map_sum id (map map_response_to_arns \<circ> rm_Layers)
     (fst (remove_new_relic (example_utils [])
        (example_config ''python3.9'' ''newrelic_lambda_wrapper.handler''
           [''arn:aws:lambda:us-east-1:451483290750:layer:NewRelicPython39:7'',
            ''arn:aws:lambda:us-east-1:451483290750:layer:NewRelicLambdaExtension:2'',
            ''arn:aws:lambda:us-east-1:123456789012:layer:mine:1'']
           [(''NEW_RELIC_LAMBDA_HANDLER'', ''app.handler'')])
        ''us-east-1'' ''my-function'' None))
   = Inr [Some ''arn:aws:lambda:us-east-1:451483290750:layer:NewRelicLambdaExtension:2'',
          Some ''arn:aws:lambda:us-east-1:123456789012:layer:mine:1'']"
  by (simp add: remove_eval)

subsection \<open>C3: install, then uninstall\<close>

text \<open>
  The round trip does not restore the layers when the installed layer is an explicit
  ARN outside the vendor's prefix: uninstall leaves that layer in place.
\<close>

theorem install_then_uninstall_counterexample:
  "RUNTIME_CONFIG (example_utils []) ''python3.9''
      = Some (HandlerStr ''newrelic_lambda_wrapper.handler'')
   \<and> cfg_get (example_config ''python3.9'' ''app.handler'' [] []) Runtime = Some ''python3.9''
   \<and> cfg_get (example_config ''python3.9'' ''app.handler'' [] []) Handler = Some ''app.handler''
   \<and> configured_layers (example_config ''python3.9'' ''app.handler'' [] []) = []
   \<and> map_sum id (map map_response_to_arns \<circ> rm_Layers)
        (install_then_uninstall (example_utils [])
           (example_config ''python3.9'' ''app.handler'' [] [])
           ''us-east-1'' ''my-function''
           (Some ''arn:aws:lambda:us-east-1:123456789012:layer:my-agent-build:1'')
           (Some ''123'') None False)
      = Inr [Some ''arn:aws:lambda:us-east-1:123456789012:layer:my-agent-build:1'']
   \<and> \<not> restores (example_config ''python3.9'' ''app.handler'' [] [])
        (install_then_uninstall (example_utils [])
           (example_config ''python3.9'' ''app.handler'' [] [])
           ''us-east-1'' ''my-function''
           (Some ''arn:aws:lambda:us-east-1:123456789012:layer:my-agent-build:1'')
           (Some ''123'') None False)"
  by (simp add: roundtrip_eval)

text \<open>
  Nor does it restore the handler of a java function whose environment already holds
  \<^verbatim>\<open>NEW_RELIC_LAMBDA_HANDLER\<close>, or an empty handler.
\<close>

lemma install_then_uninstall_stale_marker:
  "map_sum id rm_Handler
     (install_then_uninstall
        (example_utils
           [example_layer ''arn:aws:lambda:us-east-1:451483290750:layer:NewRelicJava11:5''
              ''New Relic Layer for Java 11''])
        (example_config ''java11'' ''com.example.App::handleRequest'' []
           [(''NEW_RELIC_LAMBDA_HANDLER'', ''old.handler'')])
        ''us-east-1'' ''my-function'' None (Some ''123'') (Some ''handleRequest'') False)
   = Inr (Some ''old.handler'')"
  by (simp add: roundtrip_eval)

lemma install_then_uninstall_empty_handler:
  "install_then_uninstall
        (example_utils
           [example_layer ''arn:aws:lambda:us-east-1:451483290750:layer:NewRelicPython39:8''
              ''New Relic Layer for Python 3.9''])
        (example_config ''python3.9'' [] [] [])
        ''us-east-1'' ''my-function'' None (Some ''123'') None False
   = Inl (UpdateLambdaException MarkerVariableNotFound)"
  by (simp add: roundtrip_eval)

text \<open>
  Claim C3, as the code has it. Let the runtime be supported, with instrumentation handler
  \<open>h\<close> for the given handler type, which \<^verbatim>\<open>is_valid_handler\<close> accepts for the runtime.
  Let the configuration have a non-empty handler other than \<open>h\<close> and only
  layers whose ARN does not start with the vendor's prefix of the region. If the layer
  that the install attaches (the explicit ARN, or the first discovered one) starts with
  that prefix and, for a java runtime, the environment holds no non-empty
  \<^verbatim>\<open>NEW_RELIC_LAMBDA_HANDLER\<close>, then \<^verbatim>\<open>_add_new_relic\<close> followed by \<^verbatim>\<open>_remove_new_relic\<close> on the
  patched configuration returns the original handler and the ARNs of the original
  layers, in their original order.
\<close>

theorem install_then_uninstall_restores:
  assumes acc: "truthy account_id"
    and rh: "java_runtime_handler u (runtime_of config) java_type
               (RUNTIME_CONFIG u (runtime_of config)) = Inr (Some (HandlerStr h))"
    and prov: "runtime_of config \<noteq> ''provider''"
    and valid: "is_valid_handler u (runtime_of config) h"
    and oh: "cfg_get config Handler = Some orig_handler" "orig_handler \<noteq> h" "orig_handler \<noteq> []"
    and layers: "\<forall>l \<in> set (configured_layers config).
                   \<exists>a. map_response_to_arns l = Some a \<and> \<not> prefix (get_arn_prefix u region) a"
    and new: "discover_layers u region (runtime_of config) layer_arn = Inr [new]"
             "prefix (get_arn_prefix u region) new"
    and stale: "prefix ''java'' (runtime_of config) \<longrightarrow>
                  \<not> truthy (var_get config ''NEW_RELIC_LAMBDA_HANDLER'')"
  shows "map_sum id (\<lambda>q. (rm_Handler q, map Arn (rm_Layers q)))
           (install_then_uninstall u config region function_arn layer_arn account_id java_type
              allow_upgrade)
           = Inr (cfg_get config Handler, map Arn (configured_layers config))
       \<and> restores config
           (install_then_uninstall u config region function_arn layer_arn account_id java_type
              allow_upgrade)"
proof -
  let ?pre = "get_arn_prefix u region"
  let ?arns = "layer_arns (configured_layers config)"
  let ?vars = "install_variables config account_id (Some (HandlerStr h))"
  let ?mk = "\<lambda>a. \<lparr>Arn = Some (Some a)\<rparr>"
  define p where "p = \<lparr>kw_FunctionName = function_arn, kw_Handler = Some (HandlerStr h),
     kw_Variables = ?vars, kw_Layers = [new] @ ?arns\<rparr>"
  define config' where "config' = apply_patch config p"
  from oh(1) obtain c where c: "Configuration config = Some c"
    by (auto simp: cfg_get_def split: option.splits)
  have sup: "RUNTIME_CONFIG u (runtime_of config) \<noteq> None"
    using rh by (rule java_runtime_handler_supported)
  from layers have "\<forall>l \<in> set (configured_layers config). map_response_to_arns l \<noteq> None" by auto
  then have ex: "existing_layers_of u region (configured_layers config) = Inr ?arns"
    by (simp add: existing_layers_of_total layer_arns_non_vendor(1) [OF layers])
  from oh have fresh: "map_option HandlerStr (cfg_get config Handler) \<noteq> Some (HandlerStr h)"
    by simp
  then have "allow_upgrade \<or> map_option HandlerStr (cfg_get config Handler) \<noteq> Some (HandlerStr h)"
    by simp
  from add_new_relic_success [OF acc rh this prov sup ex new(1)]
  have add: "fst (add_new_relic u config region function_arn layer_arn account_id java_type
                    allow_upgrade) = Inr p"
    by (simp add: p_def)
  have rt: "runtime_of config' = runtime_of config"
    by (simp add: config'_def apply_patch_def c runtime_of_def cfg_get_def)
  have hd': "cfg_get config' Handler = Some h"
    by (simp add: config'_def apply_patch_def c cfg_get_def p_def)
  have ls': "configured_layers config' = ?mk new # map ?mk ?arns"
    by (simp add: config'_def apply_patch_def c cfg_get_def p_def configured_layers_def)
  have vs': "variables_of config' = Some ?vars"
    by (simp add: config'_def apply_patch_def c cfg_get_def p_def variables_of_def)
  have marker: "chosen_marker config' = Some orig_handler"
  proof (cases "prefix ''java'' (runtime_of config)")
    case True
    with stale have "\<not> truthy (var_get config ''NEW_RELIC_LAMBDA_HANDLER'')" by simp
    then have "\<not> truthy (var_get config' ''NEW_RELIC_LAMBDA_HANDLER'')"
      using True fresh
      by (simp add: var_get_def vs' install_variables_def Let_def oh(1) split: option.splits)
    moreover have "var_get config' ''NEW_RELIC_GENERIC_HANDLER'' = Some orig_handler"
      using True fresh by (simp add: var_get_def vs' install_variables_def Let_def oh(1))
    ultimately show ?thesis by (simp add: chosen_marker_def)
  next
    case False
    then have "var_get config' ''NEW_RELIC_LAMBDA_HANDLER'' = Some orig_handler"
      using fresh by (simp add: var_get_def vs' install_variables_def Let_def oh(1))
    with oh(3) show ?thesis by (simp add: chosen_marker_def truthy_def)
  qed
  have env': "cfg_get config' Environment \<noteq> None"
    by (simp add: config'_def apply_patch_def c cfg_get_def)
  define info1 where "info1 = foldl del_variable config'
           [''NEW_RELIC_LAMBDA_HANDLER'', ''NEW_RELIC_GENERIC_HANDLER'',
            ''NEW_RELIC_ACCOUNT_ID'']"
  have ls1: "configured_layers info1 = ?mk new # map ?mk ?arns"
    by (simp add: info1_def ls')
  have env1: "cfg_get info1 Environment \<noteq> None"
    using env' by (simp add: info1_def)
  have "\<forall>l \<in> set (map ?mk ?arns). \<exists>a. map_response_to_arns l = Some a \<and> \<not> prefix ?pre a"
    using layer_arns_non_vendor(3) [OF layers] by (simp add: map_response_to_arns_def)
  with new(2) have loop: "remove_layers_loop ?pre 0 (configured_layers info1)
      = (None, map ?mk ?arns)"
    unfolding ls1
    by (intro remove_layers_loop_first_vendor [where a = new])
       (simp_all add: map_response_to_arns_def)
  have v: "is_valid_handler u (runtime_of config')
             (case cfg_get config' Handler of None \<Rightarrow> [] | Some h \<Rightarrow> h)"
    using valid by (simp add: rt hd')
  have t: "truthy (chosen_marker config')"
    using oh(3) by (simp add: marker truthy_def)
  from prov sup have prov': "runtime_of config' \<noteq> ''provider''"
    and sup': "RUNTIME_CONFIG u (runtime_of config') \<noteq> None"
    by (simp_all add: rt)
  from remove_new_relic_detected [OF prov' sup' v t info1_def [symmetric] loop,
      of function_arn None] env1
  obtain env where "remove_new_relic u config' region function_arn None
     = (Inr \<lparr>rm_FunctionName = function_arn, rm_Handler = Some orig_handler,
             rm_Environment = env, rm_Layers = map ?mk ?arns\<rparr>,
        set_layers info1 (map ?mk ?arns))"
    by (auto simp: marker)
  with add have res: "install_then_uninstall u config region function_arn layer_arn account_id
      java_type allow_upgrade
    = Inr \<lparr>rm_FunctionName = function_arn, rm_Handler = Some orig_handler,
             rm_Environment = env, rm_Layers = map ?mk ?arns\<rparr>"
    by (simp add: install_then_uninstall_def config'_def)
  have arns: "map Arn (map ?mk ?arns) = map Arn (configured_layers config)"
    using layer_arns_non_vendor(2) [OF layers] by (simp add: comp_def)
  show ?thesis
    using arns by (simp add: res restores_def oh(1))
qed

text \<open>
  A java function with two layers of its own, and one discovered vendor layer.
\<close>

theorem install_then_uninstall_restores_witness:
  "map_sum id (\<lambda>q. (rm_Handler q, map Arn (rm_Layers q)))
     (install_then_uninstall
        (example_utils
           [example_layer ''arn:aws:lambda:us-east-1:451483290750:layer:NewRelicJava11:5''
              ''New Relic Layer for Java 11''])
        (example_config ''java11'' ''com.example.App::handleRequest''
           [''arn:aws:lambda:us-east-1:123456789012:layer:mine:1'',
            ''arn:aws:lambda:us-east-1:123456789012:layer:other:4'']
           [(''STAGE'', ''prod'')])
        ''us-east-1'' ''my-function'' None (Some ''123'') (Some ''handleRequest'') False)
   = Inr (Some ''com.example.App::handleRequest'',
          [Some (Some ''arn:aws:lambda:us-east-1:123456789012:layer:mine:1''),
           Some (Some ''arn:aws:lambda:us-east-1:123456789012:layer:other:4'')])
   \<and> restores
        (example_config ''java11'' ''com.example.App::handleRequest''
           [''arn:aws:lambda:us-east-1:123456789012:layer:mine:1'',
            ''arn:aws:lambda:us-east-1:123456789012:layer:other:4'']
           [(''STAGE'', ''prod'')])
        (install_then_uninstall
           (example_utils
              [example_layer ''arn:aws:lambda:us-east-1:451483290750:layer:NewRelicJava11:5''
                 ''New Relic Layer for Java 11''])
           (example_config ''java11'' ''com.example.App::handleRequest''
              [''arn:aws:lambda:us-east-1:123456789012:layer:mine:1'',
               ''arn:aws:lambda:us-east-1:123456789012:layer:other:4'']
              [(''STAGE'', ''prod'')])
           ''us-east-1'' ''my-function'' None (Some ''123'') (Some ''handleRequest'') False)"
  using install_then_uninstall_restores
    [where u = "example_utils
           [example_layer ''arn:aws:lambda:us-east-1:451483290750:layer:NewRelicJava11:5''
              ''New Relic Layer for Java 11'']"
       and config = "example_config ''java11'' ''com.example.App::handleRequest''
           [''arn:aws:lambda:us-east-1:123456789012:layer:mine:1'',
            ''arn:aws:lambda:us-east-1:123456789012:layer:other:4'']
           [(''STAGE'', ''prod'')]"
       and region = "''us-east-1''" and function_arn = "''my-function''" and layer_arn = None
       and account_id = "Some ''123''" and java_type = "Some ''handleRequest''"
       and allow_upgrade = False
       and h = "''com.newrelic.java.HandlerWrapper::handleRequest''"
       and orig_handler = "''com.example.App::handleRequest''"
       and new = "''arn:aws:lambda:us-east-1:451483290750:layer:NewRelicJava11:5''"]
  by (simp add: check_eval discover_layers_def)

subsection \<open>C4: install on an instrumented function\<close>


text \<open>
  A java function that carries the wrapper of one handler type, installed again with the
  other type: the guard compares with the wrapper of the type that is asked for, so the
  call is no "Already installed", and the marker is overwritten with the old wrapper.
  Without a handler type the call fails with the error of the missing type.
\<close>

lemma add_new_relic_other_handler_type:
  "map_sum id (\<lambda>p. (kw_Handler p, kw_Variables p ''NEW_RELIC_GENERIC_HANDLER''))
     (fst (add_new_relic (example_utils [])
        (example_config ''java11'' ''com.newrelic.java.HandlerWrapper::handleStreamsRequest''
           [''arn:aws:lambda:us-east-1:451483290750:layer:NewRelicJava11:5'']
           [(''NEW_RELIC_GENERIC_HANDLER'', ''com.example.App::handleRequest'')])
        ''us-east-1'' ''my-function''
        (Some ''arn:aws:lambda:us-east-1:451483290750:layer:NewRelicJava11:6'')
        (Some ''123'') (Some ''handleRequest'') False))
   = Inr (Some (HandlerStr ''com.newrelic.java.HandlerWrapper::handleRequest''),
          Some (Some ''com.newrelic.java.HandlerWrapper::handleStreamsRequest''))"
  by (simp add: add_eval)

lemma add_new_relic_handler_type_missing:
  "fst (add_new_relic (example_utils [])
        (example_config ''java11'' ''com.newrelic.java.HandlerWrapper::handleRequest''
           [''arn:aws:lambda:us-east-1:451483290750:layer:NewRelicJava11:5'']
           [(''NEW_RELIC_GENERIC_HANDLER'', ''com.example.App::handleRequest'')])
        ''us-east-1'' ''my-function''
        (Some ''arn:aws:lambda:us-east-1:451483290750:layer:NewRelicJava11:6'')
        (Some ''123'') None False)
   = Inl (UpdateLambdaException JavaHandlerTypeMissing)"
  by (simp add: add_eval)

text \<open>
  With \<^verbatim>\<open>allow_upgrade\<close> the call can still fail after the guard: on a runtime "provider" that
  the table lists, on a configured layer without ARN, and on an empty discovery.
\<close>

lemma add_new_relic_upgrade_provider:
  "fst (add_new_relic
        ((example_utils [])\<lparr>RUNTIME_CONFIG := [''provider'' \<mapsto> HandlerStr ''bootstrap'']\<rparr>)
        (example_config ''provider'' ''bootstrap'' [] [])
        ''us-east-1'' ''my-function''
        (Some ''arn:aws:lambda:us-east-1:451483290750:layer:NewRelicLambdaExtension:2'')
        (Some ''123'') None True)
   = Inl (UpdateLambdaException (UnsupportedRuntime ''provider''))"
  by (simp add: add_eval)

lemma add_new_relic_upgrade_layer_without_arn:
  "fst (add_new_relic (example_utils [])
        \<lparr>Configuration = Some
           \<lparr>Runtime = Some ''python3.9'', Handler = Some ''newrelic_lambda_wrapper.handler'',
            Layers = Some [\<lparr>Arn = None\<rparr>], Environment = None\<rparr>\<rparr>
        ''us-east-1'' ''my-function''
        (Some ''arn:aws:lambda:us-east-1:451483290750:layer:NewRelicPython39:8'')
        (Some ''123'') None True)
   = Inl AttributeError"
  by (simp add: add_eval)

lemma add_new_relic_upgrade_empty_discovery:
  "fst (add_new_relic (example_utils [])
        (example_config ''python3.9'' ''newrelic_lambda_wrapper.handler''
           [''arn:aws:lambda:us-east-1:451483290750:layer:NewRelicPython39:7'']
           [(''NEW_RELIC_LAMBDA_HANDLER'', ''app.handler'')])
        ''us-east-1'' ''my-function'' None (Some ''123'') None True)
   = Inl IndexError"
  by (simp add: add_eval)



subsection \<open>C5: uninstall without installation\<close>

text \<open>
  Uninstall looks at the handler and at the marker variables only. A function with the
  wrapper as its handler and a marker variable, but without any layer of the vendor, is
  not instrumented in the sense of the specification (section 3 asks for a layer with
  the vendor's prefix as well), and uninstall returns a patch for it all the same.
\<close>

theorem remove_new_relic_not_detected_counterexample:
  "filter (prefix (get_arn_prefix (example_utils []) ''us-east-1''))
     (layer_arns (configured_layers
        (example_config ''python3.9'' ''newrelic_lambda_wrapper.handler''
           [''arn:aws:lambda:us-east-1:123456789012:layer:mine:1'']
           [(''NEW_RELIC_LAMBDA_HANDLER'', ''app.handler'')]))) = []
   \<and> map_sum id (\<lambda>q. (rm_Handler q, map map_response_to_arns (rm_Layers q)))
       (fst (remove_new_relic (example_utils [])
          (example_config ''python3.9'' ''newrelic_lambda_wrapper.handler''
             [''arn:aws:lambda:us-east-1:123456789012:layer:mine:1'']
             [(''NEW_RELIC_LAMBDA_HANDLER'', ''app.handler'')])
          ''us-east-1'' ''my-function'' None))
     = Inr (Some ''app.handler'',
            [Some ''arn:aws:lambda:us-east-1:123456789012:layer:mine:1''])"
  by (simp add: remove_eval layer_arns_def)

text \<open>
  Claim C5, as the code has it. On a configuration with a supported runtime,
  \<^verbatim>\<open>_remove_new_relic\<close> fails with the "unrecognized handler" error whenever
  \<^verbatim>\<open>is_valid_handler\<close> rejects the current handler, and with the "environment variable not
  found" error whenever the handler is accepted and neither marker variable holds a
  value (absent, \<^verbatim>\<open>None\<close> or empty); in both cases the configuration is left as it was. It
  returns a patch only if the handler is accepted and a marker variable holds a value;
  and then it does return one whenever every configured layer has an ARN, whether or
  not a layer has the vendor's prefix.
\<close>

theorem remove_new_relic_not_detected:
  assumes "runtime_of config \<noteq> ''provider''" and "RUNTIME_CONFIG u (runtime_of config) \<noteq> None"
  shows "(\<not> is_valid_handler u (runtime_of config)
              (case cfg_get config Handler of None \<Rightarrow> [] | Some h \<Rightarrow> h) \<longrightarrow>
            remove_new_relic u config region function_arn layer_arn
              = (Inl (UpdateLambdaException UnrecognizedHandler), config))
       \<and> (is_valid_handler u (runtime_of config)
              (case cfg_get config Handler of None \<Rightarrow> [] | Some h \<Rightarrow> h)
          \<and> \<not> truthy (var_get config ''NEW_RELIC_LAMBDA_HANDLER'')
          \<and> \<not> truthy (var_get config ''NEW_RELIC_GENERIC_HANDLER'') \<longrightarrow>
            remove_new_relic u config region function_arn layer_arn
              = (Inl (UpdateLambdaException MarkerVariableNotFound), config))
       \<and> (\<forall>q. fst (remove_new_relic u config region function_arn layer_arn) = Inr q \<longrightarrow>
            is_valid_handler u (runtime_of config)
              (case cfg_get config Handler of None \<Rightarrow> [] | Some h \<Rightarrow> h)
          \<and> (truthy (var_get config ''NEW_RELIC_LAMBDA_HANDLER'')
             \<or> truthy (var_get config ''NEW_RELIC_GENERIC_HANDLER'')))
       \<and> (is_valid_handler u (runtime_of config)
              (case cfg_get config Handler of None \<Rightarrow> [] | Some h \<Rightarrow> h)
          \<and> (truthy (var_get config ''NEW_RELIC_LAMBDA_HANDLER'')
             \<or> truthy (var_get config ''NEW_RELIC_GENERIC_HANDLER''))
          \<and> (\<forall>l \<in> set (configured_layers config). map_response_to_arns l \<noteq> None) \<longrightarrow>
            (\<exists>q. fst (remove_new_relic u config region function_arn layer_arn) = Inr q))"
proof (intro conjI impI allI)
  assume "\<not> is_valid_handler u (runtime_of config)
              (case cfg_get config Handler of None \<Rightarrow> [] | Some h \<Rightarrow> h)"
  with assms show "remove_new_relic u config region function_arn layer_arn
              = (Inl (UpdateLambdaException UnrecognizedHandler), config)"
    by (rule remove_new_relic_unrecognized)
next
  assume a: "is_valid_handler u (runtime_of config)
              (case cfg_get config Handler of None \<Rightarrow> [] | Some h \<Rightarrow> h)
          \<and> \<not> truthy (var_get config ''NEW_RELIC_LAMBDA_HANDLER'')
          \<and> \<not> truthy (var_get config ''NEW_RELIC_GENERIC_HANDLER'')"
  then have "\<not> truthy (chosen_marker config)" by (simp add: chosen_marker_def)
  with assms a show "remove_new_relic u config region function_arn layer_arn
              = (Inl (UpdateLambdaException MarkerVariableNotFound), config)"
    by (simp add: remove_new_relic_no_marker)
next
  fix q assume q: "fst (remove_new_relic u config region function_arn layer_arn) = Inr q"
  show "is_valid_handler u (runtime_of config)
              (case cfg_get config Handler of None \<Rightarrow> [] | Some h \<Rightarrow> h)"
    by (rule remove_new_relic_Inr(3) [OF q])
  from remove_new_relic_Inr(4) [OF q]
  show "truthy (var_get config ''NEW_RELIC_LAMBDA_HANDLER'')
             \<or> truthy (var_get config ''NEW_RELIC_GENERIC_HANDLER'')"
    by (simp add: chosen_marker_def split: if_splits)
next
  assume a: "is_valid_handler u (runtime_of config)
              (case cfg_get config Handler of None \<Rightarrow> [] | Some h \<Rightarrow> h)
          \<and> (truthy (var_get config ''NEW_RELIC_LAMBDA_HANDLER'')
             \<or> truthy (var_get config ''NEW_RELIC_GENERIC_HANDLER''))
          \<and> (\<forall>l \<in> set (configured_layers config). map_response_to_arns l \<noteq> None)"
  then have "truthy (chosen_marker config)" by (auto simp: chosen_marker_def)
  with assms a
  show "\<exists>q. fst (remove_new_relic u config region function_arn layer_arn) = Inr q"
    by (intro remove_new_relic_returns) simp_all
qed

text \<open>
  A function that was never instrumented, and one with the wrapper as its handler but
  no marker variable.
\<close>

theorem remove_new_relic_not_detected_witness:
  "runtime_of (example_config ''python3.9'' ''app.handler'' [] []) \<noteq> ''provider''
   \<and> RUNTIME_CONFIG (example_utils [])
        (runtime_of (example_config ''python3.9'' ''app.handler'' [] [])) \<noteq> None
   \<and> remove_new_relic (example_utils [])
        (example_config ''python3.9'' ''app.handler'' [] []) ''us-east-1'' ''my-function'' None
      = (Inl (UpdateLambdaException UnrecognizedHandler),
         example_config ''python3.9'' ''app.handler'' [] [])
   \<and> remove_new_relic (example_utils [])
        (example_config ''python3.9'' ''newrelic_lambda_wrapper.handler'' []
           [(''NEW_RELIC_ACCOUNT_ID'', ''123'')])
        ''us-east-1'' ''my-function'' None
      = (Inl (UpdateLambdaException MarkerVariableNotFound),
         example_config ''python3.9'' ''newrelic_lambda_wrapper.handler'' []
           [(''NEW_RELIC_ACCOUNT_ID'', ''123'')])"
  using remove_new_relic_not_detected
    [where u = "example_utils []"
       and config = "example_config ''python3.9'' ''app.handler'' [] []"
       and region = "''us-east-1''" and function_arn = "''my-function''" and layer_arn = None]
    remove_new_relic_not_detected
    [where u = "example_utils []"
       and config = "example_config ''python3.9'' ''newrelic_lambda_wrapper.handler'' []
           [(''NEW_RELIC_ACCOUNT_ID'', ''123'')]"
       and region = "''us-east-1''" and function_arn = "''my-function''" and layer_arn = None]
  by (simp add: check_eval)

subsection \<open>C6: the layers that install returns\<close>

text \<open>
  Claim C6. The layer list of every patch that \<^verbatim>\<open>_add_new_relic\<close> returns is the new layer
  (the explicit ARN, or the version ARN of the first discovered layer) followed by the
  ARNs of the configured layers that do not start with the vendor's prefix of the
  region, in their order. Hence every configured layer without that prefix is in the
  list, and an entry with the prefix can only be the first one.
\<close>

theorem add_new_relic_layer_order:
  assumes "fst (add_new_relic u config region function_arn layer_arn account_id java_type
                  allow_upgrade) = Inr p"
  shows "(\<exists>new.
            (layer_arn = Some new \<and> new \<noteq> []
             \<or> \<not> truthy layer_arn \<and>
               (\<exists>d ds. get_layers u region (runtime_of config) = d # ds \<and> new = version_arn d))
          \<and> kw_Layers p = new # filter (\<lambda>a. \<not> prefix (get_arn_prefix u region) a)
                                   (layer_arns (configured_layers config)))
       \<and> (\<forall>l \<in> set (configured_layers config). \<exists>a. map_response_to_arns l = Some a \<and>
             (\<not> prefix (get_arn_prefix u region) a \<longrightarrow> a \<in> set (kw_Layers p)))
       \<and> (\<forall>i < length (kw_Layers p).
             prefix (get_arn_prefix u region) (kw_Layers p ! i) \<longrightarrow> i = 0)"
proof -
  let ?keep = "filter (\<lambda>a. \<not> prefix (get_arn_prefix u region) a)
                 (layer_arns (configured_layers config))"
  from add_new_relic_Inr(6) [OF assms] obtain ex new_layers where
    ex: "existing_layers_of u region (configured_layers config) = Inr ex"
    and nw: "discover_layers u region (runtime_of config) layer_arn = Inr new_layers"
    and ls: "kw_Layers p = new_layers @ ex"
    by blast
  from existing_layers_of_Inr [OF ex]
  have arn: "\<forall>l \<in> set (configured_layers config). map_response_to_arns l \<noteq> None" and keep: "ex = ?keep"
    by blast+
  from discover_layers_Inr [OF nw] obtain new where new: "new_layers = [new]"
    and src: "layer_arn = Some new \<and> new \<noteq> []
             \<or> \<not> truthy layer_arn \<and>
               (\<exists>d ds. get_layers u region (runtime_of config) = d # ds \<and> new = version_arn d)"
    by blast
  have eq: "kw_Layers p = new # ?keep" by (simp add: ls new keep)
  have kept: "\<exists>a. map_response_to_arns l = Some a \<and>
             (\<not> prefix (get_arn_prefix u region) a \<longrightarrow> a \<in> set (kw_Layers p))"
    if "l \<in> set (configured_layers config)" for l
  proof -
    from arn that obtain a where a: "map_response_to_arns l = Some a" by auto
    with that have "a \<in> set (layer_arns (configured_layers config))"
      by (force simp: layer_arns_def)
    with a show ?thesis by (simp add: eq)
  qed
  have first: "i = 0" if "i < length (kw_Layers p)"
    and "prefix (get_arn_prefix u region) (kw_Layers p ! i)" for i
  proof (rule ccontr)
    assume "i \<noteq> 0"
    then obtain j where j: "i = Suc j" by (cases i) auto
    with that(1) have "j < length ?keep" by (simp add: eq)
    then have "?keep ! j \<in> set ?keep" by (rule nth_mem)
    moreover have "\<forall>a \<in> set ?keep. \<not> prefix (get_arn_prefix u region) a" by simp
    ultimately have "\<not> prefix (get_arn_prefix u region) (?keep ! j)" by blast
    with that(2) j show False by (simp add: eq)
  qed
  from src eq kept first show ?thesis by blast
qed

text \<open>
  A function with an old vendor layer between two layers of its own.
\<close>

theorem add_new_relic_layer_order_witness:
  "(\<exists>p. fst (add_new_relic
        (example_utils
           [example_layer ''arn:aws:lambda:us-east-1:451483290750:layer:NewRelicPython39:8''
              ''New Relic Layer for Python 3.9''])
        (example_config ''python3.9'' ''app.handler''
           [''arn:aws:lambda:us-east-1:123456789012:layer:mine:1'',
            ''arn:aws:lambda:us-east-1:451483290750:layer:NewRelicPython39:7'',
            ''arn:aws:lambda:us-east-1:123456789012:layer:other:4''] [])
        ''us-east-1'' ''my-function'' None (Some ''123'') None False) = Inr p
      \<and> kw_Layers p =
          [''arn:aws:lambda:us-east-1:451483290750:layer:NewRelicPython39:8'',
           ''arn:aws:lambda:us-east-1:123456789012:layer:mine:1'',
           ''arn:aws:lambda:us-east-1:123456789012:layer:other:4''])"
proof -
  let ?u = "example_utils
           [example_layer ''arn:aws:lambda:us-east-1:451483290750:layer:NewRelicPython39:8''
              ''New Relic Layer for Python 3.9'']"
  let ?c = "example_config ''python3.9'' ''app.handler''
           [''arn:aws:lambda:us-east-1:123456789012:layer:mine:1'',
            ''arn:aws:lambda:us-east-1:451483290750:layer:NewRelicPython39:7'',
            ''arn:aws:lambda:us-east-1:123456789012:layer:other:4''] []"
  have "\<exists>p. fst (add_new_relic ?u ?c ''us-east-1'' ''my-function'' None (Some ''123'') None
                   False) = Inr p"
    by (simp add: add_eval)
  then obtain p where p: "fst (add_new_relic ?u ?c ''us-east-1'' ''my-function'' None
                   (Some ''123'') None False) = Inr p"
    by blast
  from add_new_relic_layer_order [OF p]
  have "kw_Layers p =
          [''arn:aws:lambda:us-east-1:451483290750:layer:NewRelicPython39:8'',
           ''arn:aws:lambda:us-east-1:123456789012:layer:mine:1'',
           ''arn:aws:lambda:us-east-1:123456789012:layer:other:4'']"
    by (simp add: check_eval layer_arns_def)
  with p show ?thesis by blast
qed

subsection \<open>C7: the python scenario\<close>

text \<open>
  Claim C7. Runtime "python3.9" with instrumentation handler \<open>h\<close> (other than
  "app.handler"), handler "app.handler", no layers, account id "123", no explicit layer
  ARN and a discovery that returns exactly one layer: \<^verbatim>\<open>_add_new_relic\<close> returns a patch
  with handler \<open>h\<close>, with the version ARN of the discovered layer as its only layer, and
  with \<^verbatim>\<open>NEW_RELIC_LAMBDA_HANDLER\<close> bound to "app.handler" and \<^verbatim>\<open>NEW_RELIC_ACCOUNT_ID\<close> bound to
  "123".
\<close>

theorem add_new_relic_python39_scenario:
  assumes "RUNTIME_CONFIG u ''python3.9'' = Some (HandlerStr h)" and "h \<noteq> ''app.handler''"
    and "cfg_get config Runtime = Some ''python3.9''"
    and "cfg_get config Handler = Some ''app.handler''"
    and "configured_layers config = []"
    and "\<not> truthy layer_arn" and "get_layers u region ''python3.9'' = [d]"
  shows "\<exists>p. fst (add_new_relic u config region function_arn layer_arn (Some ''123'') java_type
                   allow_upgrade) = Inr p
           \<and> kw_Handler p = Some (HandlerStr h)
           \<and> kw_Layers p = [version_arn d]
           \<and> kw_Variables p ''NEW_RELIC_LAMBDA_HANDLER'' = Some (Some ''app.handler'')
           \<and> kw_Variables p ''NEW_RELIC_ACCOUNT_ID'' = Some (Some ''123'')"
proof -
  from assms(3) have rt: "runtime_of config = ''python3.9''" by (simp add: runtime_of_def)
  have j: "java_runtime_handler u (runtime_of config) java_type
             (RUNTIME_CONFIG u (runtime_of config)) = Inr (Some (HandlerStr h))"
    by (simp add: rt java_runtime_handler_def assms(1))
  have f: "allow_upgrade \<or> map_option HandlerStr (cfg_get config Handler) \<noteq> Some (HandlerStr h)"
    using assms(2,4) by auto
  have e: "existing_layers_of u region (configured_layers config) = Inr []"
    by (simp add: assms(5))
  have d: "discover_layers u region (runtime_of config) layer_arn = Inr [version_arn d]"
    using assms(6,7) by (simp add: rt discover_layers_first)
  have "truthy (Some ''123'')" by (simp add: truthy_def)
  from add_new_relic_success [OF this j f _ _ e d, of function_arn] assms(1,2,4)
  show ?thesis by (simp add: rt install_variables_def Let_def)
qed

text \<open>
  The scenario with the example table and one discovered layer.
\<close>

theorem add_new_relic_python39_scenario_witness:
  "\<exists>p. fst (add_new_relic
            (example_utils
               [example_layer ''arn:aws:lambda:us-east-1:451483290750:layer:NewRelicPython39:7''
                  ''New Relic Layer for Python 3.9''])
            (example_config ''python3.9'' ''app.handler'' [] [])
            ''us-east-1'' ''my-function'' None (Some ''123'') None False) = Inr p
      \<and> kw_Handler p = Some (HandlerStr ''newrelic_lambda_wrapper.handler'')
      \<and> kw_Layers p = [''arn:aws:lambda:us-east-1:451483290750:layer:NewRelicPython39:7'']
      \<and> kw_Variables p ''NEW_RELIC_LAMBDA_HANDLER'' = Some (Some ''app.handler'')
      \<and> kw_Variables p ''NEW_RELIC_ACCOUNT_ID'' = Some (Some ''123'')"
  using add_new_relic_python39_scenario
    [where u = "example_utils
               [example_layer ''arn:aws:lambda:us-east-1:451483290750:layer:NewRelicPython39:7''
                  ''New Relic Layer for Python 3.9'']"
       and h = "''newrelic_lambda_wrapper.handler''"
       and config = "example_config ''python3.9'' ''app.handler'' [] []"
       and layer_arn = None and region = "''us-east-1''"
       and d = "example_layer ''arn:aws:lambda:us-east-1:451483290750:layer:NewRelicPython39:7''
                  ''New Relic Layer for Python 3.9''"
       and function_arn = "''my-function''" and java_type = None and allow_upgrade = False]
  by (simp add: example_defs cfg_get_def configured_layers_def truthy_def version_arn_def)

subsection \<open>C8: which marker variable wins\<close>

text \<open>
  With both marker variables present, uninstall restores the value of
  \<^verbatim>\<open>NEW_RELIC_LAMBDA_HANDLER\<close>, not that of \<^verbatim>\<open>NEW_RELIC_GENERIC_HANDLER\<close>.
\<close>

theorem remove_new_relic_restored_handler_counterexample:
  "var_get (example_config ''java11'' ''com.newrelic.java.HandlerWrapper::handleRequest''
              [''arn:aws:lambda:us-east-1:451483290750:layer:NewRelicJava11:5'']
              [(''NEW_RELIC_GENERIC_HANDLER'', ''com.example.App::handleRequest''),
               (''NEW_RELIC_LAMBDA_HANDLER'', ''old.handler'')])
      ''NEW_RELIC_GENERIC_HANDLER'' = Some ''com.example.App::handleRequest''
   \<and> var_get (example_config ''java11'' ''com.newrelic.java.HandlerWrapper::handleRequest''
              [''arn:aws:lambda:us-east-1:451483290750:layer:NewRelicJava11:5'']
              [(''NEW_RELIC_GENERIC_HANDLER'', ''com.example.App::handleRequest''),
               (''NEW_RELIC_LAMBDA_HANDLER'', ''old.handler'')])
      ''NEW_RELIC_LAMBDA_HANDLER'' = Some ''old.handler''
   \<and> map_sum id rm_Handler
        (fst (remove_new_relic (example_utils [])
           (example_config ''java11'' ''com.newrelic.java.HandlerWrapper::handleRequest''
              [''arn:aws:lambda:us-east-1:451483290750:layer:NewRelicJava11:5'']
              [(''NEW_RELIC_GENERIC_HANDLER'', ''com.example.App::handleRequest''),
               (''NEW_RELIC_LAMBDA_HANDLER'', ''old.handler'')])
           ''us-east-1'' ''my-function'' None))
      = Inr (Some ''old.handler'')"
  by (simp add: remove_eval)

text \<open>
  Claim C8, as the code has it. The handler that a successful \<^verbatim>\<open>_remove_new_relic\<close> restores
  is the value of \<^verbatim>\<open>NEW_RELIC_LAMBDA_HANDLER\<close> when that variable holds a non-empty value, and
  the value of \<^verbatim>\<open>NEW_RELIC_GENERIC_HANDLER\<close> otherwise: the single-entry key is read first
  and the multi-entry key is the fallback.
\<close>

theorem remove_new_relic_restored_handler:
  assumes "fst (remove_new_relic u config region function_arn layer_arn) = Inr q"
  shows "rm_Handler q =
           (if truthy (var_get config ''NEW_RELIC_LAMBDA_HANDLER'')
            then var_get config ''NEW_RELIC_LAMBDA_HANDLER''
            else var_get config ''NEW_RELIC_GENERIC_HANDLER'')"
  using remove_new_relic_Inr(5) [OF assms] by (simp add: chosen_marker_def)

text \<open>
  A java function with the multi-entry marker only.
\<close>

theorem remove_new_relic_restored_handler_witness:
  "(\<exists>q. fst (remove_new_relic (example_utils [])
           (example_config ''java11'' ''com.newrelic.java.HandlerWrapper::handleRequest''
              [''arn:aws:lambda:us-east-1:451483290750:layer:NewRelicJava11:5'']
              [(''NEW_RELIC_GENERIC_HANDLER'', ''com.example.App::handleRequest'')])
           ''us-east-1'' ''my-function'' None) = Inr q
       \<and> rm_Handler q = Some ''com.example.App::handleRequest'')"
proof -
  let ?c = "example_config ''java11'' ''com.newrelic.java.HandlerWrapper::handleRequest''
              [''arn:aws:lambda:us-east-1:451483290750:layer:NewRelicJava11:5'']
              [(''NEW_RELIC_GENERIC_HANDLER'', ''com.example.App::handleRequest'')]"
  have "\<exists>q. fst (remove_new_relic (example_utils []) ?c ''us-east-1'' ''my-function'' None)
          = Inr q"
    by (simp add: remove_eval)
  then obtain q where q: "fst (remove_new_relic (example_utils []) ?c ''us-east-1''
      ''my-function'' None) = Inr q"
    by blast
  from remove_new_relic_restored_handler [OF q]
  have "rm_Handler q = Some ''com.example.App::handleRequest''"
    by (simp add: check_eval)
  with q show ?thesis by blast
qed

subsection \<open>C9: no mutation on failure\<close>

text \<open>
  Claim C9. When \<^verbatim>\<open>_add_new_relic\<close> or \<^verbatim>\<open>_remove_new_relic\<close> fails with an error of the
  taxonomy (\<^verbatim>\<open>UpdateLambdaException\<close> or \<^verbatim>\<open>MultipleLayersException\<close>), the caller's configuration
  after the call is the configuration before the call: handler, environment variables
  and layer list are untouched, although the planner works on a shallow copy that shares
  them.
\<close>

theorem planners_fail_without_mutation:
  "(fst (add_new_relic u config region function_arn layer_arn account_id java_type
           allow_upgrade) = Inl e \<and> taxonomy e \<longrightarrow>
    snd (add_new_relic u config region function_arn layer_arn account_id java_type
           allow_upgrade) = config)
 \<and> (fst (remove_new_relic u config' region' function_arn' layer_arn') = Inl e' \<and> taxonomy e' \<longrightarrow>
    snd (remove_new_relic u config' region' function_arn' layer_arn') = config')"
  using add_new_relic_Inl remove_new_relic_Inl by blast

text \<open>
  A missing account id, and a missing marker variable.
\<close>

theorem planners_fail_without_mutation_witness:
  "fst (add_new_relic (example_utils []) (example_config ''python3.9'' ''app.handler'' [] [])
          ''us-east-1'' ''my-function'' None None None False)
     = Inl (UpdateLambdaException AccountIdMissing)
   \<and> taxonomy (UpdateLambdaException AccountIdMissing)
   \<and> snd (add_new_relic (example_utils []) (example_config ''python3.9'' ''app.handler'' [] [])
          ''us-east-1'' ''my-function'' None None None False)
     = example_config ''python3.9'' ''app.handler'' [] []
   \<and> fst (remove_new_relic (example_utils [])
          (example_config ''python3.9'' ''newrelic_lambda_wrapper.handler'' []
             [(''NEW_RELIC_ACCOUNT_ID'', ''123'')])
          ''us-east-1'' ''my-function'' None)
     = Inl (UpdateLambdaException MarkerVariableNotFound)
   \<and> taxonomy (UpdateLambdaException MarkerVariableNotFound)
   \<and> snd (remove_new_relic (example_utils [])
          (example_config ''python3.9'' ''newrelic_lambda_wrapper.handler'' []
             [(''NEW_RELIC_ACCOUNT_ID'', ''123'')])
          ''us-east-1'' ''my-function'' None)
     = example_config ''python3.9'' ''newrelic_lambda_wrapper.handler'' []
             [(''NEW_RELIC_ACCOUNT_ID'', ''123'')]"
proof -
  have a: "fst (add_new_relic (example_utils [])
          (example_config ''python3.9'' ''app.handler'' [] [])
          ''us-east-1'' ''my-function'' None None None False)
     = Inl (UpdateLambdaException AccountIdMissing)"
    by (simp add: add_eval)
  have r: "fst (remove_new_relic (example_utils [])
          (example_config ''python3.9'' ''newrelic_lambda_wrapper.handler'' []
             [(''NEW_RELIC_ACCOUNT_ID'', ''123'')])
          ''us-east-1'' ''my-function'' None)
     = Inl (UpdateLambdaException MarkerVariableNotFound)"
    by (simp add: remove_eval)
  from planners_fail_without_mutation
    [where u = "example_utils []" and config = "example_config ''python3.9'' ''app.handler'' [] []"
       and region = "''us-east-1''" and function_arn = "''my-function''" and layer_arn = None
       and account_id = None and java_type = None and allow_upgrade = False
       and e = "UpdateLambdaException AccountIdMissing"
       and config' = "example_config ''python3.9'' ''newrelic_lambda_wrapper.handler'' []
             [(''NEW_RELIC_ACCOUNT_ID'', ''123'')]"
       and region' = "''us-east-1''" and function_arn' = "''my-function''" and layer_arn' = None
       and e' = "UpdateLambdaException MarkerVariableNotFound"] a r
  show ?thesis by simp
qed

text \<open>
  The restriction to the taxonomy matters: the \<^verbatim>\<open>KeyError\<close> of a layer without ARN comes
  after the marker variables have been deleted from the caller's configuration.
\<close>

lemma remove_new_relic_key_error_after_deletion:
  "fst (remove_new_relic (example_utils [])
     \<lparr>Configuration = Some
        \<lparr>Runtime = Some ''python3.9'', Handler = Some ''newrelic_lambda_wrapper.handler'',
         Layers = Some [\<lparr>Arn = None\<rparr>],
         Environment = Some \<lparr>Variables =
           Some [''NEW_RELIC_LAMBDA_HANDLER'' \<mapsto> Some ''app.handler'']\<rparr>\<rparr>\<rparr>
     ''us-east-1'' ''my-function'' None) = Inl KeyError
   \<and> var_get (snd (remove_new_relic (example_utils [])
     \<lparr>Configuration = Some
        \<lparr>Runtime = Some ''python3.9'', Handler = Some ''newrelic_lambda_wrapper.handler'',
         Layers = Some [\<lparr>Arn = None\<rparr>],
         Environment = Some \<lparr>Variables =
           Some [''NEW_RELIC_LAMBDA_HANDLER'' \<mapsto> Some ''app.handler'']\<rparr>\<rparr>\<rparr>
     ''us-east-1'' ''my-function'' None)) ''NEW_RELIC_LAMBDA_HANDLER'' = None"
  by (simp add: remove_new_relic_def Let_def runtime_of_def configured_layers_def cfg_get_def truthy_def
  is_valid_handler_spec_def var_get_def variables_of_def set_variables_def set_layers_def
  del_variable_def remove_layers_loop.simps map_response_to_arns_def example_defs)

text \<open>
  The same holds for a layer whose ARN is \<^verbatim>\<open>None\<close>, on which \<^verbatim>\<open>startswith\<close> raises
  \<^verbatim>\<open>AttributeError\<close>.
\<close>

lemma remove_new_relic_attribute_error_after_deletion:
  "fst (remove_new_relic (example_utils [])
     \<lparr>Configuration = Some
        \<lparr>Runtime = Some ''python3.9'', Handler = Some ''newrelic_lambda_wrapper.handler'',
         Layers = Some [\<lparr>Arn = Some None\<rparr>],
         Environment = Some \<lparr>Variables =
           Some [''NEW_RELIC_LAMBDA_HANDLER'' \<mapsto> Some ''app.handler'']\<rparr>\<rparr>\<rparr>
     ''us-east-1'' ''my-function'' None) = Inl AttributeError
   \<and> var_get (snd (remove_new_relic (example_utils [])
     \<lparr>Configuration = Some
        \<lparr>Runtime = Some ''python3.9'', Handler = Some ''newrelic_lambda_wrapper.handler'',
         Layers = Some [\<lparr>Arn = Some None\<rparr>],
         Environment = Some \<lparr>Variables =
           Some [''NEW_RELIC_LAMBDA_HANDLER'' \<mapsto> Some ''app.handler'']\<rparr>\<rparr>\<rparr>
     ''us-east-1'' ''my-function'' None)) ''NEW_RELIC_LAMBDA_HANDLER'' = None"
  by (simp add: remove_eval)

subsection \<open>C10: empty discovery\<close>

text \<open>
  Claim C10. With no explicit layer ARN and a discovery that returns the empty list,
  \<^verbatim>\<open>_add_new_relic\<close> never returns a patch; and when the checks that precede discovery
  pass (account id given, handler type given for java, not already installed unless an
  upgrade is allowed, runtime supported, every configured layer has an ARN) the call
  ends in the \<^verbatim>\<open>IndexError\<close> of \<^verbatim>\<open>disco_layers[0]\<close>, which is no error of the taxonomy, and
  leaves the configuration as it was.
\<close>

theorem add_new_relic_empty_discovery:
  assumes "\<not> truthy layer_arn" and "get_layers u region (runtime_of config) = []"
  shows "(\<forall>p. fst (add_new_relic u config region function_arn layer_arn account_id java_type
                 allow_upgrade) \<noteq> Inr p)
       \<and> (truthy account_id
          \<and> java_runtime_handler u (runtime_of config) java_type
              (RUNTIME_CONFIG u (runtime_of config)) = Inr runtime_handler
          \<and> (allow_upgrade \<or> map_option HandlerStr (cfg_get config Handler) \<noteq> runtime_handler)
          \<and> runtime_of config \<noteq> ''provider''
          \<and> RUNTIME_CONFIG u (runtime_of config) \<noteq> None
          \<and> (\<forall>l \<in> set (configured_layers config). map_response_to_arns l \<noteq> None) \<longrightarrow>
          add_new_relic u config region function_arn layer_arn account_id java_type
                 allow_upgrade = (Inl IndexError, config))"
proof (intro conjI allI impI)
  fix p
  show "fst (add_new_relic u config region function_arn layer_arn account_id java_type
                 allow_upgrade) \<noteq> Inr p"
  proof
    assume "fst (add_new_relic u config region function_arn layer_arn account_id java_type
                 allow_upgrade) = Inr p"
    from add_new_relic_Inr(6) [OF this] discover_layers_empty [OF assms]
    show False by auto
  qed
next
  assume a: "truthy account_id
          \<and> java_runtime_handler u (runtime_of config) java_type
              (RUNTIME_CONFIG u (runtime_of config)) = Inr runtime_handler
          \<and> (allow_upgrade \<or> map_option HandlerStr (cfg_get config Handler) \<noteq> runtime_handler)
          \<and> runtime_of config \<noteq> ''provider''
          \<and> RUNTIME_CONFIG u (runtime_of config) \<noteq> None
          \<and> (\<forall>l \<in> set (configured_layers config). map_response_to_arns l \<noteq> None)"
  then have "existing_layers_of u region (configured_layers config)
       = Inr (filter (\<lambda>a. \<not> prefix (get_arn_prefix u region) a) (layer_arns (configured_layers config)))"
    by (simp add: existing_layers_of_total)
  with a discover_layers_empty [OF assms]
  show "add_new_relic u config region function_arn layer_arn account_id java_type
                 allow_upgrade = (Inl IndexError, config)"
    by (auto simp: add_new_relic_def Let_def)
qed

text \<open>
  A python function in a region where discovery finds nothing.
\<close>

theorem add_new_relic_empty_discovery_witness:
  "\<not> truthy None
   \<and> get_layers (example_utils []) ''us-east-1''
        (runtime_of (example_config ''python3.9'' ''app.handler'' [] [])) = []
   \<and> add_new_relic (example_utils []) (example_config ''python3.9'' ''app.handler'' [] [])
        ''us-east-1'' ''my-function'' None (Some ''123'') None False
      = (Inl IndexError, example_config ''python3.9'' ''app.handler'' [] [])"
  using add_new_relic_empty_discovery
    [where u = "example_utils []" and config = "example_config ''python3.9'' ''app.handler'' [] []"
       and region = "''us-east-1''" and function_arn = "''my-function''" and layer_arn = None
       and account_id = "Some ''123''" and java_type = None and allow_upgrade = False
       and runtime_handler = "Some (HandlerStr ''newrelic_lambda_wrapper.handler'')"]
  by (simp add: check_eval)

end
